theory Spec2Isabelle
  imports Complex_Main "HOL-Library.Multiset" "HOL-Library.Sublist" "HOL-Library.Log_Nat"
begin

section \<open>Values of the table library\<close>

text \<open>
  The library of \<^verbatim>\<open>src/table-library.js\<close> works on JavaScript values. A Number is an
  IEEE double: \<open>Fin q\<close> is the finite double whose exact value is the rational \<open>q\<close>
  (the two zeros are identified: no operation of the library tells them apart), and
  \<open>NaN\<close>, \<open>PosInf\<close> and \<open>NegInf\<close> are the three special values.
\<close>

datatype jsnum = NaN | PosInf | NegInf | Fin rat

text \<open>
  A cell is any plain value: \<open>undefined\<close>, \<open>null\<close>, a boolean, a number, a string, a
  \<open>Date\<close> (its time value in milliseconds, \<open>None\<close> for the invalid date whose time
  value is NaN), an array, or a plain object given by its own properties in the order
  of enumeration. Strings are sequences of code units below 256. Functions, symbols and
  objects with accessors or a \<open>toJSON\<close> of their own are not cells of this model.
\<close>

datatype jsval =
    JUndefined
  | JNull
  | JBool bool
  | JNum jsnum
  | JStr string
  | JDate "int option"
  | JArr "jsval list"
  | JObj "(string \<times> jsval) list"

type_synonym row = "jsval list"

text \<open>An entry of an array of rows that may hold \<open>undefined\<close>: \<open>None\<close> is
  \<open>undefined\<close>.\<close>

type_synonym entry = "row option"

text \<open>What the source, or a function of the language it calls, throws.\<close>

datatype thrown = TypeError string | RangeError string

text \<open>
  The functions of the JavaScript host that the library calls and whose result depends
  on the locale, the time zone, the engine or the browser are parameters:
  \<open>String.prototype.localeCompare\<close> (a negative, zero or positive number),
  \<open>Number::toString\<close> on a positive finite number that is not an integer below
  \<open>2^53\<close> (the shortest digits that read back as the same double),
  \<open>Intl.DateTimeFormat("en-IN", options).format\<close> (the flag says whether the
  date-only options are used), \<open>Date.prototype.toString\<close> and
  \<open>Date.prototype.toISOString\<close> on a valid time value; the browser's reading of the
  markup written into the table body, as \<open>filterTable\<close> sees it
  (\<open>bodyRows\<close>: the \<open>tr\<close> elements that the document holds under the
  \<open>tbody\<close> once the markup is parsed, each as the text contents of its cells); and
  the greatest number of arguments that a call spreading an array
  (\<open>Math.max(...values)\<close>) takes before the engine throws a RangeError.
\<close>

record platform =
  localeCompare :: "string \<Rightarrow> string \<Rightarrow> int"
  numberDigits :: "rat \<Rightarrow> string"
  dateTimeFormat :: "bool \<Rightarrow> int \<Rightarrow> string"
  dateToString :: "int \<Rightarrow> string"
  dateToISOString :: "int \<Rightarrow> string"
  bodyRows :: "string \<Rightarrow> string list list"
  maxArguments :: nat

section \<open>Numbers\<close>

text \<open>Rounding of an exact result to the nearest double, ties to the even significand:
  53 bits of precision, gradual underflow below \<open>2^-1022\<close>, overflow to an infinity
  from \<open>2^1024 - 2^970\<close> on.\<close>

definition pow2 :: "int \<Rightarrow> rat" where
  "pow2 e = (if 0 \<le> e then 2 ^ nat e else 1 / 2 ^ nat (- e))"

definition floor_log2 :: "rat \<Rightarrow> int" where
  "floor_log2 q = (if 1 \<le> q then bitlen \<lfloor>q\<rfloor> - 1 else - bitlen (\<lceil>1 / q\<rceil> - 1))"

definition round_even :: "rat \<Rightarrow> int" where
  "round_even x =
     (let f = \<lfloor>x\<rfloor>; d = x - of_int f
      in if d < 1 / 2 then f else if 1 / 2 < d then f + 1 else if even f then f else f + 1)"

definition round_double :: "rat \<Rightarrow> jsnum" where
  "round_double q =
     (if q = 0 then Fin 0
      else
        let a = \<bar>q\<bar>;
            b = max (floor_log2 a) (- 1022);
            m = round_even (a / pow2 (b - 52))
        in if 1023 < b \<or> (b = 1023 \<and> m = 2 ^ 53)
           then (if 0 < q then PosInf else NegInf)
           else Fin (sgn q * (of_int m * pow2 (b - 52))))"

fun js_neg :: "jsnum \<Rightarrow> jsnum" where
  "js_neg NaN = NaN"
| "js_neg PosInf = NegInf"
| "js_neg NegInf = PosInf"
| "js_neg (Fin a) = Fin (- a)"

fun js_add :: "jsnum \<Rightarrow> jsnum \<Rightarrow> jsnum" where
  "js_add NaN y = NaN"
| "js_add x NaN = NaN"
| "js_add PosInf NegInf = NaN"
| "js_add NegInf PosInf = NaN"
| "js_add PosInf y = PosInf"
| "js_add NegInf y = NegInf"
| "js_add x PosInf = PosInf"
| "js_add x NegInf = NegInf"
| "js_add (Fin a) (Fin b) = round_double (a + b)"

definition js_sub :: "jsnum \<Rightarrow> jsnum \<Rightarrow> jsnum" where
  "js_sub x y = js_add x (js_neg y)"

text \<open>\<open>x / values.length\<close>: the divisor is an array length, a non-negative integer.\<close>

fun js_div_length :: "jsnum \<Rightarrow> nat \<Rightarrow> jsnum" where
  "js_div_length NaN n = NaN"
| "js_div_length PosInf n = PosInf"
| "js_div_length NegInf n = NegInf"
| "js_div_length (Fin a) n =
     (if n = 0 then (if a = 0 then NaN else if 0 < a then PosInf else NegInf)
      else round_double (a / of_nat n))"

text \<open>The tests \<open>i >= 0\<close> and \<open>v > 0\<close> on a number, and \<open>isNaN\<close>.\<close>

fun ge0 :: "jsnum \<Rightarrow> bool" where
  "ge0 NaN = False"
| "ge0 PosInf = True"
| "ge0 NegInf = False"
| "ge0 (Fin q) = (0 \<le> q)"

fun gt0 :: "jsnum \<Rightarrow> bool" where
  "gt0 NaN = False"
| "gt0 PosInf = True"
| "gt0 NegInf = False"
| "gt0 (Fin q) = (0 < q)"

fun isNaN :: "jsnum \<Rightarrow> bool" where
  "isNaN NaN = True"
| "isNaN n = False"

text \<open>\<open>Math.max\<close> and \<open>Math.min\<close> of a list of numbers.\<close>

fun js_max2 :: "jsnum \<Rightarrow> jsnum \<Rightarrow> jsnum" where
  "js_max2 NaN y = NaN"
| "js_max2 x NaN = NaN"
| "js_max2 PosInf y = PosInf"
| "js_max2 x PosInf = PosInf"
| "js_max2 NegInf y = y"
| "js_max2 x NegInf = x"
| "js_max2 (Fin a) (Fin b) = Fin (max a b)"

fun js_min2 :: "jsnum \<Rightarrow> jsnum \<Rightarrow> jsnum" where
  "js_min2 NaN y = NaN"
| "js_min2 x NaN = NaN"
| "js_min2 NegInf y = NegInf"
| "js_min2 x NegInf = NegInf"
| "js_min2 PosInf y = y"
| "js_min2 x PosInf = x"
| "js_min2 (Fin a) (Fin b) = Fin (min a b)"

definition Math_max :: "jsnum list \<Rightarrow> jsnum" where
  "Math_max ns = foldl js_max2 NegInf ns"

definition Math_min :: "jsnum list \<Rightarrow> jsnum" where
  "Math_min ns = foldl js_min2 PosInf ns"

text \<open>Decimal digits of a natural number.\<close>

fun digits :: "nat \<Rightarrow> string" where
  "digits n =
     (if n < 10 then [''0123456789'' ! n]
      else digits (n div 10) @ [''0123456789'' ! (n mod 10)])"

declare digits.simps [simp del]

text \<open>\<open>Number::toString\<close>: an integer of magnitude below \<open>2^53\<close> prints as its
  decimal digits; the digits of any other finite number come from the host.\<close>

definition positiveToString :: "platform \<Rightarrow> rat \<Rightarrow> string" where
  "positiveToString P q =
     (if of_int \<lfloor>q\<rfloor> = q \<and> q < 2 ^ 53 then digits (nat \<lfloor>q\<rfloor>) else numberDigits P q)"

fun numberToString :: "platform \<Rightarrow> jsnum \<Rightarrow> string" where
  "numberToString P NaN = ''NaN''"
| "numberToString P PosInf = ''Infinity''"
| "numberToString P NegInf = ''-Infinity''"
| "numberToString P (Fin q) =
     (if q < 0 then ''-'' @ positiveToString P (- q) else positiveToString P q)"

text \<open>\<open>Number.prototype.toFixed(2)\<close>: a number that is not finite, or of magnitude
  \<open>10^21\<close> or more, prints as \<open>Number::toString\<close> does; any other as the nearest
  multiple of \<open>1/100\<close> (the larger one of two) with at least one digit before the
  point and two after it.\<close>

definition pad3 :: "string \<Rightarrow> string" where
  "pad3 m = (if length m \<le> 2 then replicate (3 - length m) CHR ''0'' @ m else m)"

definition fixed2 :: "rat \<Rightarrow> string" where
  "fixed2 x =
     (let m = pad3 (digits (nat \<lfloor>x * 100 + 1 / 2\<rfloor>))
      in take (length m - 2) m @ ''.'' @ drop (length m - 2) m)"

fun toFixed2 :: "platform \<Rightarrow> jsnum \<Rightarrow> string" where
  "toFixed2 P (Fin q) =
     (if q < 0
      then ''-'' @ (if 10 ^ 21 \<le> - q then numberToString P (Fin (- q)) else fixed2 (- q))
      else (if 10 ^ 21 \<le> q then numberToString P (Fin q) else fixed2 q))"
| "toFixed2 P n = numberToString P n"

section \<open>Strings\<close>

definition nl :: string where
  "nl = [CHR 0x0A]"

definition spaces :: "nat \<Rightarrow> string" where
  "spaces n = replicate n CHR '' ''"

text \<open>\<open>Array.prototype.join\<close> on an array of strings.\<close>

fun js_join :: "string \<Rightarrow> string list \<Rightarrow> string" where
  "js_join sep [] = []"
| "js_join sep [x] = x"
| "js_join sep (x # y # ys) = x @ sep @ js_join sep (y # ys)"

text \<open>\<open>String(v)\<close> and the interpolation of \<open>v\<close> into a template literal. An array
  prints as its elements joined by a comma, with \<open>undefined\<close> and \<open>null\<close> elements
  left empty.\<close>

fun toString :: "platform \<Rightarrow> jsval \<Rightarrow> string" where
  "toString P JUndefined = ''undefined''"
| "toString P JNull = ''null''"
| "toString P (JBool b) = (if b then ''true'' else ''false'')"
| "toString P (JNum n) = numberToString P n"
| "toString P (JStr s) = s"
| "toString P (JDate None) = ''Invalid Date''"
| "toString P (JDate (Some t)) = dateToString P t"
| "toString P (JArr xs) =
     js_join '','' (map (\<lambda>x. if x = JUndefined \<or> x = JNull then [] else toString P x) xs)"
| "toString P (JObj ps) = ''[object Object]''"

text \<open>\<open>cell.join(sep)\<close> on an array cell.\<close>

definition arrayJoin :: "platform \<Rightarrow> string \<Rightarrow> jsval list \<Rightarrow> string" where
  "arrayJoin P sep xs =
     js_join sep (map (\<lambda>x. if x = JUndefined \<or> x = JNull then [] else toString P x) xs)"

text \<open>\<open>JSON.stringify\<close>. A string is quoted with its quotes, backslashes and control
  characters escaped.\<close>

definition hex2 :: "nat \<Rightarrow> string" where
  "hex2 n = [''0123456789abcdef'' ! (n div 16), ''0123456789abcdef'' ! (n mod 16)]"

definition jsonEscape :: "char \<Rightarrow> string" where
  "jsonEscape c =
     (if c = CHR 0x08 then [CHR 0x5C, CHR ''b'']
      else if c = CHR 0x09 then [CHR 0x5C, CHR ''t'']
      else if c = CHR 0x0A then [CHR 0x5C, CHR ''n'']
      else if c = CHR 0x0C then [CHR 0x5C, CHR ''f'']
      else if c = CHR 0x0D then [CHR 0x5C, CHR ''r'']
      else if c = CHR 0x22 then [CHR 0x5C, CHR 0x22]
      else if c = CHR 0x5C then [CHR 0x5C, CHR 0x5C]
      else if of_char c < (32 :: nat) then [CHR 0x5C, CHR ''u'', CHR ''0'', CHR ''0''] @ hex2 (of_char c)
      else [c])"

definition quoteJSON :: "string \<Rightarrow> string" where
  "quoteJSON s = [CHR 0x22] @ concat (map jsonEscape s) @ [CHR 0x22]"

text \<open>
  \<open>serializeJSON P gap indent v\<close> is the text of \<open>v\<close> under the indentation unit \<open>gap\<close>
  at the current indentation, or \<open>None\<close> where \<open>JSON.stringify\<close> yields \<open>undefined\<close>.
  A number that is not finite and an invalid date print as \<open>null\<close>, a valid date as its
  quoted ISO string; in an array \<open>undefined\<close> prints as \<open>null\<close>, in an object a property
  holding \<open>undefined\<close> is left out.
\<close>

fun serializeJSON :: "platform \<Rightarrow> string \<Rightarrow> string \<Rightarrow> jsval \<Rightarrow> string option" where
  "serializeJSON P gap indent JUndefined = None"
| "serializeJSON P gap indent JNull = Some ''null''"
| "serializeJSON P gap indent (JBool b) = Some (if b then ''true'' else ''false'')"
| "serializeJSON P gap indent (JNum (Fin q)) = Some (numberToString P (Fin q))"
| "serializeJSON P gap indent (JNum n) = Some ''null''"
| "serializeJSON P gap indent (JStr s) = Some (quoteJSON s)"
| "serializeJSON P gap indent (JDate None) = Some ''null''"
| "serializeJSON P gap indent (JDate (Some t)) = Some (quoteJSON (dateToISOString P t))"
| "serializeJSON P gap indent (JArr xs) =
     (let partial =
            map (\<lambda>x. case serializeJSON P gap (indent @ gap) x of
                        None \<Rightarrow> ''null'' | Some str \<Rightarrow> str) xs
      in Some (if partial = [] then ''[]''
               else if gap = [] then ''['' @ js_join '','' partial @ '']''
               else ''['' @ nl @ indent @ gap
                    @ js_join ('','' @ nl @ indent @ gap) partial
                    @ nl @ indent @ '']''))"
| "serializeJSON P gap indent (JObj ps) =
     (let partial =
            concat (map (\<lambda>(k, v). case serializeJSON P gap (indent @ gap) v of
                        None \<Rightarrow> []
                      | Some str \<Rightarrow>
                          [quoteJSON k @ '':'' @ (if gap = [] then [] else '' '') @ str]) ps)
      in Some (if partial = [] then ''{}''
               else if gap = [] then ''{'' @ js_join '','' partial @ ''}''
               else ''{'' @ nl @ indent @ gap
                    @ js_join ('','' @ nl @ indent @ gap) partial
                    @ nl @ indent @ ''}''))"

text \<open>\<open>JSON.stringify(cell, null, 2)\<close> and \<open>JSON.stringify(cell)\<close>, as values.\<close>

definition stringifyPretty :: "platform \<Rightarrow> jsval \<Rightarrow> jsval" where
  "stringifyPretty P v =
     (case serializeJSON P (spaces 2) [] v of None \<Rightarrow> JUndefined | Some str \<Rightarrow> JStr str)"

definition stringify :: "platform \<Rightarrow> jsval \<Rightarrow> jsval" where
  "stringify P v =
     (case serializeJSON P [] [] v of None \<Rightarrow> JUndefined | Some str \<Rightarrow> JStr str)"

text \<open>Truthiness, and \<open>a || b\<close>.\<close>

fun truthy :: "jsval \<Rightarrow> bool" where
  "truthy JUndefined = False"
| "truthy JNull = False"
| "truthy (JBool b) = b"
| "truthy (JNum NaN) = False"
| "truthy (JNum (Fin q)) = (q \<noteq> 0)"
| "truthy (JNum n) = True"
| "truthy (JStr s) = (s \<noteq> [])"
| "truthy v = True"

definition js_or :: "jsval \<Rightarrow> jsval \<Rightarrow> jsval" where
  "js_or a b = (if truthy a then a else b)"

text \<open>Reading a property of a cell: only a plain object has properties named
  \<open>type\<close>, \<open>value\<close>, \<open>placeholder\<close> and so on.\<close>

fun get_prop :: "jsval \<Rightarrow> string \<Rightarrow> jsval" where
  "get_prop (JObj ps) k = (case map_of ps k of None \<Rightarrow> JUndefined | Some v \<Rightarrow> v)"
| "get_prop v k = JUndefined"

text \<open>\<open>typeof cell === "object" && cell !== null\<close>\<close>

fun isObject :: "jsval \<Rightarrow> bool" where
  "isObject (JDate t) = True"
| "isObject (JArr xs) = True"
| "isObject (JObj ps) = True"
| "isObject v = False"

fun isValidDate :: "jsval \<Rightarrow> bool" where
  "isValidDate (JDate (Some t)) = True"
| "isValidDate v = False"

text \<open>Reading a position of an array: \<open>undefined\<close> outside its bounds.\<close>

definition js_nth :: "jsval list \<Rightarrow> nat \<Rightarrow> jsval" where
  "js_nth xs i = (if i < length xs then xs ! i else JUndefined)"

section \<open>Cell classification: rendering and export text\<close>

text \<open>\<open>formatDateOrTimestamp\<close>: the empty string for anything but a valid date; the
  date-only format when the UTC hours, minutes and seconds are all zero.\<close>

definition isDateOnly :: "int \<Rightarrow> bool" where
  "isDateOnly t =
     ((t div 3600000) mod 24 = 0 \<and> (t div 60000) mod 60 = 0 \<and> (t div 1000) mod 60 = 0)"

fun formatDateOrTimestamp :: "platform \<Rightarrow> jsval \<Rightarrow> string" where
  "formatDateOrTimestamp P (JDate (Some t)) = dateTimeFormat P (isDateOnly t) t"
| "formatDateOrTimestamp P v = []"

fun isArray :: "jsval \<Rightarrow> bool" where
  "isArray (JArr xs) = True"
| "isArray v = False"

fun elements :: "jsval \<Rightarrow> jsval list" where
  "elements (JArr xs) = xs"
| "elements v = []"

fun isBoolean :: "jsval \<Rightarrow> bool" where
  "isBoolean (JBool b) = True"
| "isBoolean v = False"

fun isNumber :: "jsval \<Rightarrow> bool" where
  "isNumber (JNum n) = True"
| "isNumber v = False"

text \<open>The markup of an action cell, with its optional checkbox.\<close>

definition renderCheckbox :: "platform \<Rightarrow> jsval \<Rightarrow> nat \<Rightarrow> string" where
  \<open>renderCheckbox P cell rowIndex =
     nl @ spaces 16 @ ''<label class="table-library-checkbox-label">''
     @ nl @ spaces 18 @ ''<input type="checkbox" ''
     @ (if truthy (get_prop cell ''checkboxValue'') then ''checked'' else [])
     @ nl @ spaces 20 @ ''class="table-library-action-checkbox" ''
     @ nl @ spaces 20 @ ''data-row-index="'' @ digits rowIndex @ ''"''
     @ nl @ spaces 20 @ ''data-fn="'' @ toString P (get_prop cell ''function'') @ ''" />''
     @ nl @ spaces 18 @ ''<span>''
     @ toString P (js_or (get_prop cell ''checkboxLabel'') (JStr ''Mark''))
     @ ''</span>''
     @ nl @ spaces 16 @ ''</label>'' @ nl @ spaces 14\<close>

definition renderButton :: "platform \<Rightarrow> jsval \<Rightarrow> nat \<Rightarrow> string" where
  \<open>renderButton P cell rowIndex =
     nl @ spaces 12 @ ''<div class="table-library-action-cell ''
     @ (if truthy (get_prop cell ''checkbox'') then ''has-checkbox'' else [])
     @ ''">''
     @ nl @ spaces 14 @ ''<button class="table-library-action-btn" ''
     @ nl @ spaces 22 @ ''data-fn="'' @ toString P (get_prop cell ''function'') @ ''" ''
     @ nl @ spaces 22 @ ''data-row-index="'' @ digits rowIndex @ ''">''
     @ nl @ spaces 16
     @ toString P (js_or (get_prop cell ''placeholder'') (JStr ''Action''))
     @ nl @ spaces 14 @ ''</button>''
     @ nl @ spaces 14
     @ (if truthy (get_prop cell ''checkbox'') then renderCheckbox P cell rowIndex else [])
     @ nl @ spaces 12 @ ''</div>'' @ nl @ spaces 10\<close>

text \<open>
  \<open>renderCell\<close>, branch by branch in the order of the source. The test for an object
  comes before the tests for an array and for a date, and an array and a date are
  objects: those two later branches are never taken.
\<close>

definition renderCell :: "platform \<Rightarrow> jsval \<Rightarrow> nat \<Rightarrow> nat \<Rightarrow> string" where
  \<open>renderCell P cell rowIndex colIndex =
     (if cell = JNull \<or> cell = JUndefined then ''<span class="table-library-null">-</span>''
      else if isObject cell then
        (if get_prop cell ''type'' = JStr ''url'' then
           ''<a href="'' @ toString P (get_prop cell ''value'')
           @ ''" target="_blank" class="table-library-url">''
           @ toString P (js_or (get_prop cell ''placeholder'') (JStr ''Open''))
           @ ''</a>''
         else if get_prop cell ''type'' = JStr ''button'' then renderButton P cell rowIndex
         else ''<pre class="table-library-object">'' @ toString P (stringifyPretty P cell)
              @ ''</pre>'')
      else if isArray cell then
        (if elements cell = [] then ''<span class="table-library-empty">[]</span>''
         else ''<span class="table-library-array" title="''
              @ arrayJoin P '', '' (elements cell) @ ''">[''
              @ arrayJoin P '', '' (elements cell) @ '']</span>'')
      else if isValidDate cell then
        ''<span class="table-library-date">'' @ formatDateOrTimestamp P cell @ ''</span>''
      else if isBoolean cell then
        ''<span class="table-library-boolean ''
        @ (if cell = JBool True then ''true'' else ''false'') @ ''">''
        @ (if cell = JBool True then ''Yes'' else ''No'') @ ''</span>''
      else if isNumber cell then
        ''<span class="table-library-number">'' @ toString P cell @ ''</span>''
      else ''<span class="table-library-text" title="'' @ toString P cell @ ''">''
           @ toString P cell @ ''</span>'')\<close>

text \<open>
  \<open>getCellTextContent\<close>. It returns a value, not always a string: the placeholder
  of a link or action cell is returned as it is, and the caller applies \<open>String\<close>.
\<close>

definition getCellTextContent :: "platform \<Rightarrow> jsval \<Rightarrow> jsval" where
  "getCellTextContent P cell =
     (if cell = JNull \<or> cell = JUndefined then JStr []
      else if isObject cell then
        (if get_prop cell ''type'' = JStr ''url''
         then js_or (get_prop cell ''placeholder'') (JStr ''Open'')
         else if get_prop cell ''type'' = JStr ''button''
         then js_or (get_prop cell ''placeholder'') (JStr ''Action'')
         else if isArray cell then JStr (arrayJoin P ''; '' (elements cell))
         else if isValidDate cell then JStr (formatDateOrTimestamp P cell)
         else stringify P cell)
      else if isBoolean cell then JStr (if cell = JBool True then ''Yes'' else ''No'')
      else JStr (toString P cell))"

text \<open>The text that the export writes for a cell: \<open>String(getCellTextContent(cell))\<close>.\<close>

definition exportText :: "platform \<Rightarrow> jsval \<Rightarrow> string" where
  "exportText P cell = toString P (getCellTextContent P cell)"

section \<open>Column projection: \<open>hideColumns\<close>\<close>

text \<open>\<open>headings.indexOf(col)\<close>: the first position holding a value strictly equal to
  \<open>col\<close>, or \<open>-1\<close>. Headings are strings, so only a string can be found.\<close>

fun index_from :: "nat \<Rightarrow> string list \<Rightarrow> string \<Rightarrow> int" where
  "index_from i [] s = - 1"
| "index_from i (h # hs) s = (if h = s then int i else index_from (Suc i) hs s)"

definition indexOf :: "string list \<Rightarrow> jsval \<Rightarrow> int" where
  "indexOf hs col = (case col of JStr s \<Rightarrow> index_from 0 hs s | _ \<Rightarrow> - 1)"

text \<open>\<open>hideIndexes.includes(i)\<close> for an array index \<open>i\<close>.\<close>

definition js_includes :: "jsnum list \<Rightarrow> nat \<Rightarrow> bool" where
  "js_includes ns i = (Fin (of_nat i) \<in> set ns)"

text \<open>\<open>xs.filter((_, i) => p(i))\<close>: the elements at the positions that pass.\<close>

fun filter_from :: "(nat \<Rightarrow> bool) \<Rightarrow> nat \<Rightarrow> 'a list \<Rightarrow> 'a list" where
  "filter_from p i [] = []"
| "filter_from p i (x # xs) =
     (if p i then x # filter_from p (Suc i) xs else filter_from p (Suc i) xs)"

definition filter_index :: "(nat \<Rightarrow> bool) \<Rightarrow> 'a list \<Rightarrow> 'a list" where
  "filter_index p xs = filter_from p 0 xs"

text \<open>\<open>xs.map((x, i) => f(i, x))\<close>\<close>

fun map_from :: "(nat \<Rightarrow> 'a \<Rightarrow> 'b) \<Rightarrow> nat \<Rightarrow> 'a list \<Rightarrow> 'b list" where
  "map_from f i [] = []"
| "map_from f i (x # xs) = f i x # map_from f (Suc i) xs"

definition map_index :: "(nat \<Rightarrow> 'a \<Rightarrow> 'b) \<Rightarrow> 'a list \<Rightarrow> 'b list" where
  "map_index f xs = map_from f 0 xs"

text \<open>The configured \<open>hideColumns\<close> is a single specifier or an array of them. A
  number stands for itself, anything else for its position among the headings; the
  specifiers that are not \<open>>= 0\<close> are dropped.\<close>

definition hideCols :: "jsval \<Rightarrow> jsval list" where
  "hideCols hc = (case hc of JArr cols \<Rightarrow> cols | _ \<Rightarrow> [hc])"

definition hideIndexes :: "jsval \<Rightarrow> string list \<Rightarrow> jsnum list" where
  "hideIndexes hc headings =
     filter ge0
       (map (\<lambda>col. case col of JNum n \<Rightarrow> n | _ \<Rightarrow> Fin (of_int (indexOf headings col)))
          (hideCols hc))"

definition hideColumns :: "jsval \<Rightarrow> string list \<Rightarrow> row list \<Rightarrow> string list \<times> row list" where
  "hideColumns hc headings data =
     (let hidden = hideIndexes hc headings
      in (filter_index (\<lambda>i. \<not> js_includes hidden i) headings,
          map (\<lambda>row. filter_index (\<lambda>i. \<not> js_includes hidden i) row) data))"

text \<open>The positions below \<open>n\<close> that the normalised specifiers hide, and those they
  leave, in increasing order and each once.\<close>

definition hiddenColumns :: "jsnum list \<Rightarrow> nat \<Rightarrow> nat list" where
  "hiddenColumns hidden n = filter (js_includes hidden) [0..<n]"

definition shownColumns :: "jsnum list \<Rightarrow> nat \<Rightarrow> nat list" where
  "shownColumns hidden n = filter (\<lambda>i. \<not> js_includes hidden i) [0..<n]"

section \<open>Modification rules: \<open>applyModifications\<close>\<close>

text \<open>
  A rule is a function of the cell, its row and the two indices that returns a value
  (\<open>Inr\<close>) or throws one (\<open>Inl\<close>). The configuration \<open>modifyConfig\<close> is read by
  property name; a property that is missing or holds anything but a function is \<open>None\<close>,
  since the source only asks \<open>typeof rule === "function"\<close>.
\<close>

type_synonym rule = "jsval \<Rightarrow> row \<Rightarrow> nat \<Rightarrow> nat \<Rightarrow> jsval + jsval"

type_synonym modifyConfig = "string \<Rightarrow> rule option"

text \<open>The property name \<open>headings[colIndex]\<close>: past the headings it is \<open>undefined\<close>,
  which names the property \<open>"undefined"\<close>.\<close>

definition headingKey :: "string list \<Rightarrow> nat \<Rightarrow> string" where
  "headingKey headings colIndex =
     (if colIndex < length headings then headings ! colIndex else ''undefined'')"

definition coordinateKey :: "nat \<Rightarrow> nat \<Rightarrow> string" where
  "coordinateKey rowIndex colIndex = digits rowIndex @ '','' @ digits colIndex"

text \<open>One cell: \<open>modified\<close> starts as the cell; inside one \<open>try\<close> the heading rule and
  then the coordinate rule are called, both on the original cell, each assigning
  \<open>modified\<close>; a throw leaves \<open>modified\<close> as it is at that moment and the error is
  logged.\<close>

definition modifyCell :: "modifyConfig \<Rightarrow> string list \<Rightarrow> row \<Rightarrow> nat \<Rightarrow> nat \<Rightarrow> jsval \<Rightarrow> jsval" where
  "modifyCell mc headings row rowIndex colIndex cell =
     (let ruleByHeading = mc (headingKey headings colIndex);
          ruleByIndex = mc (coordinateKey rowIndex colIndex);
          first = (case ruleByHeading of
                     None \<Rightarrow> Inr cell
                   | Some f \<Rightarrow> f cell row rowIndex colIndex)
      in case first of
           Inl err \<Rightarrow> cell
         | Inr modified \<Rightarrow>
             (case ruleByIndex of
                None \<Rightarrow> modified
              | Some g \<Rightarrow>
                  (case g cell row rowIndex colIndex of
                     Inl err \<Rightarrow> modified
                   | Inr modified' \<Rightarrow> modified')))"

definition applyModifications :: "modifyConfig option \<Rightarrow> row list \<Rightarrow> string list \<Rightarrow> row list" where
  "applyModifications modifyConfig data headings =
     (case modifyConfig of
        None \<Rightarrow> data
      | Some mc \<Rightarrow>
          map_index (\<lambda>rowIndex row.
             map_index (\<lambda>colIndex cell. modifyCell mc headings row rowIndex colIndex cell) row)
            data)"

section \<open>Aggregation: \<open>calculateMetric\<close>\<close>

text \<open>The rows of an array of entries, when none of them is \<open>undefined\<close>.\<close>

fun definedRows :: "entry list \<Rightarrow> row list option" where
  "definedRows [] = Some []"
| "definedRows (None # es) = None"
| "definedRows (Some r # es) = map_option ((#) r) (definedRows es)"

text \<open>The values of a column that are numbers and not NaN.\<close>

fun numeric :: "jsval \<Rightarrow> jsnum list" where
  "numeric (JNum n) = (if isNaN n then [] else [n])"
| "numeric v = []"

definition columnValues :: "row list \<Rightarrow> nat \<Rightarrow> jsnum list" where
  "columnValues rows colIndex = concat (map (\<lambda>row. numeric (js_nth row colIndex)) rows)"

definition js_sum :: "jsnum list \<Rightarrow> jsnum" where
  "js_sum ns = foldl js_add (Fin 0) ns"

text \<open>
  \<open>calculateMetric\<close> on the array \<open>this.filteredData\<close>. Reading the column of an
  entry that is \<open>undefined\<close> throws a TypeError. \<open>sum\<close> and \<open>avg\<close> fold the
  values; \<open>max\<close> and \<open>min\<close> spread them into the arguments of \<open>Math.max\<close> and
  \<open>Math.min\<close>, which throws a RangeError when there are more values than the engine
  takes as arguments.
\<close>

definition calculateMetric :: "platform \<Rightarrow> entry list \<Rightarrow> nat \<Rightarrow> string \<Rightarrow> thrown + string" where
  "calculateMetric P filtered colIndex type =
     (case definedRows filtered of
        None \<Rightarrow> Inl (TypeError ''Cannot read properties of undefined'')
      | Some rows \<Rightarrow>
          (let vals = columnValues rows colIndex
           in if vals = [] then Inr []
              else if type = ''sum'' then Inr (toFixed2 P (js_sum vals))
              else if type = ''avg''
              then Inr (toFixed2 P (js_div_length (js_sum vals) (length vals)))
              else if type = ''max''
              then (if maxArguments P < length vals
                    then Inl (RangeError ''Maximum call stack size exceeded'')
                    else Inr (toFixed2 P (Math_max vals)))
              else if type = ''min''
              then (if maxArguments P < length vals
                    then Inl (RangeError ''Maximum call stack size exceeded'')
                    else Inr (toFixed2 P (Math_min vals)))
              else Inr []))"

text \<open>The order of the numbers that are not NaN, and the shape of a text with exactly
  two decimal places: an optional minus sign, one or more digits, a point, two digits.\<close>

fun js_le :: "jsnum \<Rightarrow> jsnum \<Rightarrow> bool" where
  "js_le NaN y = False"
| "js_le x NaN = False"
| "js_le NegInf y = True"
| "js_le x PosInf = True"
| "js_le PosInf y = False"
| "js_le x NegInf = False"
| "js_le (Fin a) (Fin b) = (a \<le> b)"

definition isDigit :: "char \<Rightarrow> bool" where
  "isDigit c = (c \<in> set ''0123456789'')"

definition unsigned :: "string \<Rightarrow> string" where
  "unsigned s = (case s of [] \<Rightarrow> [] | c # cs \<Rightarrow> if c = CHR ''-'' then cs else s)"

definition twoDecimals :: "string \<Rightarrow> bool" where
  "twoDecimals s =
     (let body = unsigned s; k = length body
      in 4 \<le> k
         \<and> list_all isDigit (take (k - 3) body)
         \<and> body ! (k - 3) = CHR ''.''
         \<and> list_all isDigit (drop (k - 2) body))"

section \<open>Sorting\<close>

datatype direction = Asc | Desc

text \<open>The comparison function handed to \<open>Array.prototype.sort\<close>.\<close>

definition compareRows :: "platform \<Rightarrow> nat \<Rightarrow> direction \<Rightarrow> row \<Rightarrow> row \<Rightarrow> jsnum" where
  "compareRows P col newDirection a b =
     (let valA = js_nth a col; valB = js_nth b col
      in case (valA, valB) of
           (JNum x, JNum y) \<Rightarrow> (if newDirection = Asc then js_sub x y else js_sub y x)
         | _ \<Rightarrow>
             (if newDirection = Asc
              then Fin (of_int (localeCompare P (toString P valA) (toString P valB)))
              else Fin (of_int (localeCompare P (toString P valB) (toString P valA)))))"

text \<open>
  \<open>Array.prototype.sort\<close> is stable, and a comparison result that is NaN counts as
  zero. For a consistent comparison function the result is the one stable sorted order,
  which insertion from the right computes; for an inconsistent one the order is left
  to the engine, and this model takes the same insertion to fix one.
\<close>

fun insert_by :: "('a \<Rightarrow> 'a \<Rightarrow> jsnum) \<Rightarrow> 'a \<Rightarrow> 'a list \<Rightarrow> 'a list" where
  "insert_by cmp x [] = [x]"
| "insert_by cmp x (y # ys) =
     (if gt0 (cmp x y) then y # insert_by cmp x ys else x # y # ys)"

definition js_sort :: "('a \<Rightarrow> 'a \<Rightarrow> jsnum) \<Rightarrow> 'a list \<Rightarrow> 'a list" where
  "js_sort cmp xs = foldr (insert_by cmp) xs []"

section \<open>Export: the CSV text of \<open>downloadAsCSV\<close>\<close>

text \<open>\<open>s.replace(/"/g, '""')\<close>\<close>

definition doubleQuotes :: "string \<Rightarrow> string" where
  "doubleQuotes s = concat (map (\<lambda>c. if c = CHR 0x22 then [CHR 0x22, CHR 0x22] else [c]) s)"

definition csvField :: "platform \<Rightarrow> jsval \<Rightarrow> string" where
  "csvField P cell =
     [CHR 0x22] @ doubleQuotes (toString P (getCellTextContent P cell)) @ [CHR 0x22]"

text \<open>The text handed to the download: the header line when asked for, then one line
  appended per row in turn.\<close>

definition csvContent :: "platform \<Rightarrow> string list \<Rightarrow> row list \<Rightarrow> bool \<Rightarrow> string" where
  "csvContent P headers data includeHeaders =
     foldl (\<lambda>csv row. csv @ js_join '','' (map (csvField P) row) @ nl)
       (if includeHeaders
        then js_join '','' (map (\<lambda>header. [CHR 0x22] @ header @ [CHR 0x22]) headers) @ nl
        else [])
       data"

section \<open>Filtering: the text test of \<open>filterTable\<close>\<close>

definition isSpace :: "char \<Rightarrow> bool" where
  "isSpace c = (c \<in> set [CHR 0x09, CHR 0x0A, CHR 0x0B, CHR 0x0C, CHR 0x0D, CHR 0x20, CHR 0xA0])"

definition trim :: "string \<Rightarrow> string" where
  "trim s = rev (dropWhile isSpace (rev (dropWhile isSpace s)))"

definition lowerChar :: "char \<Rightarrow> char" where
  "lowerChar c =
     (let n = (of_char c :: nat)
      in if (65 \<le> n \<and> n \<le> 90) \<or> (192 \<le> n \<and> n \<le> 222 \<and> n \<noteq> 215)
         then char_of (n + 32) else c)"

definition toLowerCase :: "string \<Rightarrow> string" where
  "toLowerCase s = map lowerChar s"

text \<open>
  A row element of the table body is given by the text contents of its cells. It stays
  visible when every filter input that is not blank after trimming occurs, ignoring
  case, in the text content of the cell of the same position (the empty text when the
  row has no such cell).
\<close>

definition cellTextAt :: "string list \<Rightarrow> nat \<Rightarrow> string" where
  "cellTextAt cells i = (if i < length cells then cells ! i else [])"

definition rowVisible :: "string list \<Rightarrow> string list \<Rightarrow> bool" where
  "rowVisible inputs cells =
     list_all (\<lambda>(i, input).
         let flt = toLowerCase (trim input)
         in flt = [] \<or> sublist flt (toLowerCase (cellTextAt cells i)))
       (zip [0..<length inputs] inputs)"

section \<open>The table object\<close>

text \<open>
  The arrays of rows are objects that the program shares and, in one place, mutates:
  \<open>this.displayData.sort(...)\<close> sorts in place. They live in a store, and the fields of
  the table hold their addresses. The arrays of the configuration, of the processed and
  of the displayed rows only ever hold rows (store \<open>heap\<close>); the array of the filtered
  rows is built from positions of \<open>displayData\<close> and can hold \<open>undefined\<close> (store
  \<open>sparse\<close>). Both stores take their addresses from the one counter \<open>nxt\<close>.
  \<open>alloc\<close> and \<open>allocEntries\<close> are the creation of a new array (by \<open>map\<close>, by a
  spread copy \<open>[...xs]\<close> or by a literal). The rows themselves and the cells are
  values: the source never assigns to a position of a row, and every \<open>row.map\<close> and
  \<open>row.filter\<close> builds a new row.
\<close>

type_synonym ref = nat

record sortState =
  colIndex :: "nat option"
  direction :: "direction option"

record config =
  cfg_headings :: "string list"
  cfg_data :: ref
  cfg_hideColumns :: jsval
  cfg_modifyConfig :: "modifyConfig option"

text \<open>
  Of the document the table keeps what later code reads back: the row elements of the
  table body as the browser has parsed them from the markup written last, or \<open>None\<close>
  when the table is not in the document because the container was not found.
\<close>

record table =
  heap :: "ref \<Rightarrow> row list"
  sparse :: "ref \<Rightarrow> entry list"
  nxt :: ref
  config :: config
  sortState :: sortState
  processedData :: ref
  processedHeadings :: "string list"
  filteredData :: ref
  displayData :: ref
  tbody :: "string list list option"

definition alloc :: "row list \<Rightarrow> table \<Rightarrow> ref \<times> table" where
  "alloc rows s = (nxt s, s\<lparr>heap := (heap s)(nxt s := rows), nxt := Suc (nxt s)\<rparr>)"

definition allocEntries :: "entry list \<Rightarrow> table \<Rightarrow> ref \<times> table" where
  "allocEntries es s = (nxt s, s\<lparr>sparse := (sparse s)(nxt s := es), nxt := Suc (nxt s)\<rparr>)"

text \<open>The rows behind the three views.\<close>

definition processedRows :: "table \<Rightarrow> row list" where
  "processedRows s = heap s (processedData s)"

definition displayedRows :: "table \<Rightarrow> row list" where
  "displayedRows s = heap s (displayData s)"

definition filteredRows :: "table \<Rightarrow> entry list" where
  "filteredRows s = sparse s (filteredData s)"

text \<open>\<open>getData\<close> returns the array of the configuration, \<open>getFilteredData\<close> the
  filtered one.\<close>

definition getData :: "table \<Rightarrow> ref" where
  "getData s = cfg_data (config s)"

definition getFilteredData :: "table \<Rightarrow> ref" where
  "getFilteredData s = filteredData s"

text \<open>The markup of the table body as \<open>generateHTML\<close> and as \<open>refreshTableBody\<close>
  write it, with the line breaks and indentation of the two templates.\<close>

definition generatedCell :: "platform \<Rightarrow> string list \<Rightarrow> nat \<Rightarrow> nat \<Rightarrow> jsval \<Rightarrow> string" where
  \<open>generatedCell P headings rowIndex c cell =
     nl @ spaces 20 @ ''<td data-heading="'' @ headingKey headings c @ ''">''
     @ nl @ spaces 22 @ renderCell P cell rowIndex c
     @ nl @ spaces 20 @ ''</td>'' @ nl @ spaces 18\<close>

definition generatedRow :: "platform \<Rightarrow> string list \<Rightarrow> nat \<Rightarrow> row \<Rightarrow> string" where
  \<open>generatedRow P headings rowIndex row =
     nl @ spaces 16 @ ''<tr data-row-index="'' @ digits rowIndex @ ''">''
     @ nl @ spaces 18 @ concat (map_index (generatedCell P headings rowIndex) row)
     @ nl @ spaces 16 @ ''</tr>'' @ nl @ spaces 14\<close>

definition generatedBody :: "platform \<Rightarrow> string list \<Rightarrow> row list \<Rightarrow> string" where
  "generatedBody P headings data =
     nl @ spaces 14 @ concat (map_index (generatedRow P headings) data) @ nl @ spaces 12"

definition refreshedCell :: "platform \<Rightarrow> string list \<Rightarrow> nat \<Rightarrow> nat \<Rightarrow> jsval \<Rightarrow> string" where
  \<open>refreshedCell P headings rowIndex c cell =
     nl @ spaces 10 @ ''<td data-heading="'' @ headingKey headings c @ ''">''
     @ nl @ spaces 12 @ renderCell P cell rowIndex c
     @ nl @ spaces 10 @ ''</td>''\<close>

definition refreshedRow :: "platform \<Rightarrow> string list \<Rightarrow> nat \<Rightarrow> row \<Rightarrow> string" where
  \<open>refreshedRow P headings rowIndex row =
     nl @ spaces 6 @ ''<tr data-row-index="'' @ digits rowIndex @ ''">''
     @ nl @ spaces 8 @ concat (map_index (refreshedCell P headings rowIndex) row)
     @ nl @ spaces 6 @ ''</tr>''\<close>

definition refreshedBody :: "platform \<Rightarrow> string list \<Rightarrow> row list \<Rightarrow> string" where
  "refreshedBody P headings data = concat (map_index (refreshedRow P headings) data)"

text \<open>
  \<open>init\<close>: projection, then modification, then the three views. \<open>hideColumns\<close> builds
  a new array; \<open>applyModifications\<close> returns that same array when \<open>modifyConfig\<close> is
  missing and a new one otherwise. The flag \<open>found\<close> says whether the container is in
  the document: if so the generated markup is written into it and the browser parses
  it; if not, the error is reported and nothing is rendered.
\<close>

definition init :: "platform \<Rightarrow> bool \<Rightarrow> table \<Rightarrow> table" where
  "init P found s =
     (let processed = hideColumns (cfg_hideColumns (config s)) (cfg_headings (config s))
                        (heap s (cfg_data (config s)));
          (projected, s1) = alloc (snd processed) s;
          (finalData, s2) =
             (case cfg_modifyConfig (config s) of
                None \<Rightarrow> (projected, s1)
              | Some mc \<Rightarrow> alloc (applyModifications (Some mc) (snd processed) (fst processed)) s1);
          (filtered, s3) = allocEntries (map Some (heap s2 finalData)) s2;
          (displayed, s4) = alloc (heap s3 finalData) s3
      in s4\<lparr>processedData := finalData,
            processedHeadings := fst processed,
            filteredData := filtered,
            displayData := displayed,
            tbody := (if found
                      then Some (bodyRows P (generatedBody P (fst processed) (heap s4 finalData)))
                      else None)\<rparr>)"

text \<open>The constructor: the caller's array of rows is at address 0; the three views
  start as empty arrays and the sort state as inactive, then \<open>init\<close> runs.\<close>

definition newTable ::
  "platform \<Rightarrow> bool \<Rightarrow> string list \<Rightarrow> row list \<Rightarrow> jsval \<Rightarrow> modifyConfig option \<Rightarrow> table" where
  "newTable P found headings data hc mc =
     init P found
       \<lparr>heap = (\<lambda>r. [])(0 := data), sparse = (\<lambda>r. []), nxt = 4,
        config = \<lparr>cfg_headings = headings, cfg_data = 0, cfg_hideColumns = hc,
                  cfg_modifyConfig = mc\<rparr>,
        sortState = \<lparr>colIndex = None, direction = None\<rparr>,
        processedData = 1, processedHeadings = [], filteredData = 2, displayData = 3,
        tbody = None\<rparr>"

text \<open>
  \<open>refreshTableBody\<close> returns at once when the table body is not in the document.
  Otherwise it rewrites the body from \<open>displayData\<close> and then calls
  \<open>this.updateRowCount()\<close>, a method that the class does not define: the call throws a
  TypeError, after the body has been rewritten.
\<close>

definition refreshTableBody :: "platform \<Rightarrow> table \<Rightarrow> table \<times> thrown option" where
  "refreshTableBody P s =
     (case tbody s of
        None \<Rightarrow> (s, None)
      | Some old \<Rightarrow>
          (s\<lparr>tbody :=
               Some (bodyRows P (refreshedBody P (processedHeadings s) (heap s (displayData s))))\<rparr>,
           Some (TypeError ''this.updateRowCount is not a function'')))"

text \<open>\<open>sortByColumn\<close>: the new state of the cycle, then either a new copy of the
  processed rows or the sort of \<open>displayData\<close> in place, then a new copy of the result
  as \<open>filteredData\<close>, then the refresh of the body.\<close>

definition sortByColumn :: "platform \<Rightarrow> nat \<Rightarrow> table \<Rightarrow> table \<times> thrown option" where
  "sortByColumn P col s =
     (let activeCol = colIndex (sortState s);
          dir = direction (sortState s);
          newDirection =
            (if activeCol = Some col \<and> dir = Some Asc then Some Desc
             else if activeCol = Some col \<and> dir = Some Desc then None
             else Some Asc);
          s1 = s\<lparr>sortState :=
                  \<lparr>colIndex = (if newDirection \<noteq> None then Some col else None),
                   direction = newDirection\<rparr>\<rparr>;
          s2 = (case newDirection of
                  None \<Rightarrow>
                    (let (copy, s') = alloc (heap s1 (processedData s1)) s1
                     in s'\<lparr>displayData := copy\<rparr>)
                | Some d \<Rightarrow>
                    s1\<lparr>heap := (heap s1)
                         (displayData s1 := js_sort (compareRows P col d) (heap s1 (displayData s1)))\<rparr>);
          (copy, s3) = allocEntries (map Some (heap s2 (displayData s2))) s2
      in refreshTableBody P (s3\<lparr>filteredData := copy\<rparr>))"

text \<open>
  \<open>filterTable\<close> with the current texts of the filter inputs. The row elements are
  read from the document (none when the table is not there); the positions of the
  visible ones are looked up in \<open>displayData\<close>, a position past its end giving
  \<open>undefined\<close>, and the results form a new array.
\<close>

definition visibleRowIndexes :: "string list \<Rightarrow> string list list \<Rightarrow> nat list" where
  "visibleRowIndexes inputs rows =
     filter (\<lambda>index. rowVisible inputs (rows ! index)) [0..<length rows]"

definition entryAt :: "row list \<Rightarrow> nat \<Rightarrow> entry" where
  "entryAt rows index = (if index < length rows then Some (rows ! index) else None)"

definition filterTable :: "string list \<Rightarrow> table \<Rightarrow> table" where
  "filterTable inputs s =
     (let rows = (case tbody s of None \<Rightarrow> [] | Some body \<Rightarrow> body);
          visible = visibleRowIndexes inputs rows;
          (selected, s1) = allocEntries (map (entryAt (heap s (displayData s))) visible) s
      in s1\<lparr>filteredData := selected\<rparr>)"

text \<open>\<open>downloadAsCSV\<close> writes the processed headings and the filtered rows; mapping
  over an entry that is \<open>undefined\<close> throws a TypeError and nothing is written.\<close>

definition downloadAsCSV :: "platform \<Rightarrow> table \<Rightarrow> bool \<Rightarrow> thrown + string" where
  "downloadAsCSV P s includeHeaders =
     (case definedRows (filteredRows s) of
        None \<Rightarrow> Inl (TypeError ''Cannot read properties of undefined'')
      | Some rows \<Rightarrow> Inr (csvContent P (processedHeadings s) rows includeHeaders))"

text \<open>The user's actions on a table, and their effect in turn. An error thrown by
  \<open>sortByColumn\<close> ends the click handler and leaves the table as it is at the throw.\<close>

datatype action = Sort nat | Filter "string list"

fun step :: "platform \<Rightarrow> table \<Rightarrow> action \<Rightarrow> table" where
  "step P s (Sort col) = fst (sortByColumn P col s)"
| "step P s (Filter inputs) = filterTable inputs s"

definition run :: "platform \<Rightarrow> table \<Rightarrow> action list \<Rightarrow> table" where
  "run P s acts = foldl (step P) s acts"

section \<open>Invariants of the table\<close>

text \<open>The arrays of the configuration and of the three views are allocated, and the
  array that the sort mutates is none of the others.\<close>

definition viewsApart :: "table \<Rightarrow> bool" where
  "viewsApart s =
     (cfg_data (config s) < nxt s \<and> processedData s < nxt s
      \<and> displayData s < nxt s \<and> filteredData s < nxt s
      \<and> displayData s \<noteq> processedData s
      \<and> displayData s \<noteq> cfg_data (config s)
      \<and> processedData s \<noteq> cfg_data (config s)
      \<and> filteredData s \<noteq> displayData s)"

text \<open>The table body, when it is in the document, has one row element per displayed
  row. This is what the templates intend; whether it holds is up to what the browser
  makes of the text of the cells, which the templates write unescaped.\<close>

definition bodyInStep :: "table \<Rightarrow> bool" where
  "bodyInStep s =
     (case tbody s of None \<Rightarrow> True | Some body \<Rightarrow> length body = length (displayedRows s))"

text \<open>The sort state is inactive in both fields or active in both.\<close>

definition sortStateOk :: "table \<Rightarrow> bool" where
  "sortStateOk s = ((colIndex (sortState s) = None) = (direction (sortState s) = None))"

section \<open>Example inputs\<close>

text \<open>
  A host for the examples. Strings are compared by code units, and the fixed texts
  stand where the examples do not depend on the host. \<open>exampleBodyRows\<close> reads the
  markup of a table body the way a browser does on the markup of the examples: a
  \<open>tr\<close> start tag opens a row element, ending the cell and the row that are open; a
  \<open>td\<close> start tag opens a cell of the open row; the characters outside tags are the
  text of the open cell; every other tag contributes nothing; attribute values stand
  in double quotes and there are no character references.
\<close>

fun compareUnits :: "string \<Rightarrow> string \<Rightarrow> int" where
  "compareUnits [] [] = 0"
| "compareUnits [] (b # bs) = - 1"
| "compareUnits (a # as) [] = 1"
| "compareUnits (a # as) (b # bs) =
     (if (of_char a :: nat) < of_char b then - 1
      else if (of_char b :: nat) < of_char a then 1
      else compareUnits as bs)"

datatype scanning = InText | InName bool string | InTag bool string | InQuoted bool string

type_synonym body = "string list list \<times> string list option \<times> string option"

fun closeCell :: "body \<Rightarrow> body" where
  "closeCell (rows, row, None) = (rows, row, None)"
| "closeCell (rows, None, Some t) = (rows, Some [t], None)"
| "closeCell (rows, Some cells, Some t) = (rows, Some (cells @ [t]), None)"

fun closeRow :: "body \<Rightarrow> body" where
  "closeRow b =
     (case closeCell b of
        (rows, None, cell) \<Rightarrow> (rows, None, None)
      | (rows, Some cells, cell) \<Rightarrow> (rows @ [cells], None, None))"

fun openRow :: "body \<Rightarrow> body" where
  "openRow b = (case closeRow b of (rows, row, cell) \<Rightarrow> (rows, Some [], None))"

fun openCell :: "body \<Rightarrow> body" where
  "openCell b =
     (case closeCell b of
        (rows, None, cell) \<Rightarrow> (rows, Some [], Some [])
      | (rows, Some cells, cell) \<Rightarrow> (rows, Some cells, Some []))"

definition tagSeen :: "bool \<Rightarrow> string \<Rightarrow> body \<Rightarrow> body" where
  "tagSeen closing name b =
     (if name = ''tr'' then (if closing then closeRow b else openRow b)
      else if name = ''td'' then (if closing then closeCell b else openCell b)
      else b)"

fun textSeen :: "char \<Rightarrow> body \<Rightarrow> body" where
  "textSeen c (rows, row, None) = (rows, row, None)"
| "textSeen c (rows, row, Some t) = (rows, row, Some (t @ [c]))"

definition isLetter :: "char \<Rightarrow> bool" where
  "isLetter c = ((97 :: nat) \<le> of_char c \<and> (of_char c :: nat) \<le> 122)"

fun scan :: "scanning \<Rightarrow> body \<Rightarrow> string \<Rightarrow> body" where
  "scan m b [] = closeRow b"
| "scan InText b (c # cs) =
     (if c = CHR ''<'' then scan (InName False []) b cs else scan InText (textSeen c b) cs)"
| "scan (InName closing name) b (c # cs) =
     (if c = CHR ''/'' \<and> name = [] \<and> \<not> closing then scan (InName True []) b cs
      else if c = CHR ''>'' then scan InText (tagSeen closing name b) cs
      else if isLetter c then scan (InName closing (name @ [c])) b cs
      else if c = CHR 0x22 then scan (InQuoted closing name) b cs
      else scan (InTag closing name) b cs)"
| "scan (InTag closing name) b (c # cs) =
     (if c = CHR ''>'' then scan InText (tagSeen closing name b) cs
      else if c = CHR 0x22 then scan (InQuoted closing name) b cs
      else scan (InTag closing name) b cs)"
| "scan (InQuoted closing name) b (c # cs) =
     (if c = CHR 0x22 then scan (InTag closing name) b cs
      else scan (InQuoted closing name) b cs)"

definition exampleBodyRows :: "string \<Rightarrow> string list list" where
  "exampleBodyRows markup = fst (scan InText ([], None, None) markup)"

definition exampleHost :: platform where
  "exampleHost =
     \<lparr>localeCompare = compareUnits,
      numberDigits = (\<lambda>q. ''0.5''),
      dateTimeFormat = (\<lambda>dateOnly t. ''01 Jan 2024''),
      dateToString = (\<lambda>t. ''Mon Jan 01 2024''),
      dateToISOString = (\<lambda>t. ''2024-01-01T00:00:00.000Z''),
      bodyRows = exampleBodyRows,
      maxArguments = 65535\<rparr>"

text \<open>Two rules: one that replaces the cell, one that throws.\<close>

definition markRule :: rule where
  "markRule cell row r c = Inr (JStr ''seen'')"

definition throwingRule :: rule where
  "throwingRule cell row r c = Inl (JStr ''boom'')"

definition exampleRules :: modifyConfig where
  "exampleRules key =
     (if key = ''Age'' then Some markRule
      else if key = ''0,1'' then Some throwingRule
      else None)"

definition exampleRows :: "row list" where
  "exampleRows = [[JStr ''Bob'', JNum (Fin 30)], [JStr ''Al'', JNum (Fin 25)]]"

definition exampleTable :: table where
  "exampleTable =
     newTable exampleHost True [''Name'', ''Age''] exampleRows (JArr []) (Some (\<lambda>key. None))"

text \<open>A table of one row whose only cell is the text \<open><tr>\<close>.\<close>

definition markupTable :: table where
  "markupTable =
     newTable exampleHost True [''Name''] [[JStr ''<tr>'']] (JArr []) (Some (\<lambda>key. None))"

section \<open>Properties of the projection\<close>

lemma filter_from_nth:
  "filter_from p k xs = map (\<lambda>i. xs ! (i - k)) (filter p [k..<k + length xs])"
proof (induction xs arbitrary: k)
  case Nil
  show ?case by simp
next
  case (Cons x xs)
  have up: "[k..<k + length (x # xs)] = k # [Suc k..<Suc k + length xs]"
    using upt_conv_Cons [of k "Suc (k + length xs)"] by simp
  have shift: "map (\<lambda>i. (x # xs) ! (i - k)) (filter p [Suc k..<Suc k + length xs])
      = map (\<lambda>i. xs ! (i - Suc k)) (filter p [Suc k..<Suc k + length xs])"
    by (rule map_cong) (auto simp: Suc_diff_le nth_Cons')
  show ?case
    unfolding up using Cons.IH [of "Suc k"] shift by simp
qed

lemma filter_index_nth:
  "filter_index p xs = map (\<lambda>i. xs ! i) (filter p [0..<length xs])"
  using filter_from_nth [of p 0 xs] by (simp add: filter_index_def)

lemma length_shownColumns:
  "length (shownColumns hidden n) = n - length (hiddenColumns hidden n)"
  using sum_length_filter_compl [of "js_includes hidden" "[0..<n]"]
  by (simp add: shownColumns_def hiddenColumns_def)

lemma project_row:
  "filter_index (\<lambda>i. \<not> js_includes hidden i) xs = map (\<lambda>i. xs ! i) (shownColumns hidden (length xs))"
  by (simp add: filter_index_nth shownColumns_def)

text \<open>
  Claim C7, as amended. Projection keeps exactly the columns that no normalised
  specifier addresses, in their original order: the output headings, and every row as
  long as the headings, have length \<open>len(headings)\<close> minus the number of distinct
  positions below \<open>len(headings)\<close> among the resolved indices. A numeric specifier at
  or beyond the number of columns survives normalisation but removes nothing.
\<close>

theorem hideColumns_lengths:
  assumes "\<forall>r \<in> set data. length r = length headings"
  shows "length (fst (hideColumns hc headings data))
           = length headings - length (hiddenColumns (hideIndexes hc headings) (length headings))
       \<and> (\<forall>r \<in> set (snd (hideColumns hc headings data)).
            length r = length headings
              - length (hiddenColumns (hideIndexes hc headings) (length headings)))
       \<and> fst (hideColumns hc headings data)
           = map (\<lambda>i. headings ! i) (shownColumns (hideIndexes hc headings) (length headings))
       \<and> snd (hideColumns hc headings data)
           = map (\<lambda>r. map (\<lambda>i. r ! i) (shownColumns (hideIndexes hc headings) (length headings)))
               data"
proof -
  let ?H = "hideIndexes hc headings"
  have hd: "fst (hideColumns hc headings data)
      = map (\<lambda>i. headings ! i) (shownColumns ?H (length headings))"
    by (simp add: hideColumns_def Let_def project_row)
  have rows: "snd (hideColumns hc headings data)
      = map (\<lambda>r. map (\<lambda>i. r ! i) (shownColumns ?H (length headings))) data"
    using assms by (simp add: hideColumns_def Let_def project_row)
  have len: "length (map (\<lambda>i. headings ! i) (shownColumns ?H (length headings)))
      = length headings - length (hiddenColumns ?H (length headings))"
    by (simp add: length_shownColumns)
  have rlen: "\<forall>r \<in> set (snd (hideColumns hc headings data)).
      length r = length headings - length (hiddenColumns ?H (length headings))"
    unfolding rows by (auto simp: length_shownColumns)
  from hd rows len rlen show ?thesis by simp
qed

theorem hideColumns_lengths_witness:
  "length (fst (hideColumns (JArr [JStr ''Age'', JNum (Fin 0), JStr ''Zip''])
       [''Id'', ''Name'', ''Age''] [[JNum (Fin 1), JStr ''Al'', JNum (Fin 25)]])) = 1
   \<and> snd (hideColumns (JArr [JStr ''Age'', JNum (Fin 0), JStr ''Zip''])
       [''Id'', ''Name'', ''Age''] [[JNum (Fin 1), JStr ''Al'', JNum (Fin 25)]]) = [[JStr ''Al'']]"
proof -
  have rows: "\<forall>r \<in> set [[JNum (Fin 1), JStr ''Al'', JNum (Fin 25)]].
      length r = length [''Id'', ''Name'', ''Age'']"
    by simp
  have H: "hideIndexes (JArr [JStr ''Age'', JNum (Fin 0), JStr ''Zip'']) [''Id'', ''Name'', ''Age'']
      = [Fin 2, Fin 0]"
    by (simp add: hideIndexes_def hideCols_def indexOf_def)
  have up: "[0..<3] = [0, 1, 2]"
    by (simp add: upt_conv_Cons)
  show ?thesis
    using hideColumns_lengths [OF rows, of "JArr [JStr ''Age'', JNum (Fin 0), JStr ''Zip'']"]
    by (simp add: H up hiddenColumns_def shownColumns_def js_includes_def)
qed

text \<open>
  Claim C7, as stated, fails for an index specifier that addresses no column: with two
  headings and \<open>hideColumns = [5]\<close> the specifier is kept by the normalisation (it is a
  number and \<open>5 >= 0\<close>), yet both columns remain.
\<close>

theorem hideColumns_out_of_range_counterexample:
  "hideIndexes (JArr [JNum (Fin 5)]) [''A'', ''B''] = [Fin 5]
   \<and> length (fst (hideColumns (JArr [JNum (Fin 5)]) [''A'', ''B''] [[JNum (Fin 1), JNum (Fin 2)]]))
       \<noteq> length [''A'', ''B''] - length (hideIndexes (JArr [JNum (Fin 5)]) [''A'', ''B''])"
  by (simp add: hideColumns_def hideIndexes_def hideCols_def filter_index_def js_includes_def)

section \<open>Properties of the modification stage\<close>

lemma length_map_from: "length (map_from f k xs) = length xs"
  by (induction xs arbitrary: k) simp_all

lemma map_from_nth: "i < length xs \<Longrightarrow> map_from f k xs ! i = f (k + i) (xs ! i)"
proof (induction xs arbitrary: k i)
  case Nil
  then show ?case by simp
next
  case (Cons x xs)
  show ?case
  proof (cases i)
    case 0
    then show ?thesis by simp
  next
    case (Suc j)
    with Cons.prems have "j < length xs" by simp
    from Cons.IH [OF this, of "Suc k"] Suc show ?thesis by simp
  qed
qed

lemma length_map_index: "length (map_index f xs) = length xs"
  by (simp add: map_index_def length_map_from)

lemma map_index_nth: "i < length xs \<Longrightarrow> map_index f xs ! i = f i (xs ! i)"
  by (simp add: map_index_def map_from_nth)

lemma applyModifications_cell:
  assumes "r < length data" and "c < length (data ! r)"
  shows "applyModifications (Some mc) data headings ! r ! c
           = modifyCell mc headings (data ! r) r c (data ! r ! c)"
  using assms by (simp add: applyModifications_def map_index_nth)

lemma applyModifications_shape:
  "length (applyModifications (Some mc) data headings) = length data
   \<and> (\<forall>r < length data.
        length (applyModifications (Some mc) data headings ! r) = length (data ! r))"
  by (simp add: applyModifications_def map_index_nth length_map_index)

text \<open>
  Claim C3, as amended. When a rule throws at a cell, the cell of the output holds the
  value it had before the failing call: the original cell when the heading rule throws
  (the coordinate rule is then not called) or when there is no heading rule and the
  coordinate rule throws, and the result of the heading rule when that rule returned
  and the coordinate rule throws. The output keeps the shape of the input, whatever the
  rules do at the other cells: every cell is processed.
\<close>

theorem applyModifications_on_throw:
  assumes "r < length data" and "c < length (data ! r)"
  shows "(\<forall>f err. mc (headingKey headings c) = Some f
             \<and> f (data ! r ! c) (data ! r) r c = Inl err
           \<longrightarrow> applyModifications (Some mc) data headings ! r ! c = data ! r ! c)
       \<and> (\<forall>g err. mc (headingKey headings c) = None
             \<and> mc (coordinateKey r c) = Some g
             \<and> g (data ! r ! c) (data ! r) r c = Inl err
           \<longrightarrow> applyModifications (Some mc) data headings ! r ! c = data ! r ! c)
       \<and> (\<forall>f g v err. mc (headingKey headings c) = Some f
             \<and> f (data ! r ! c) (data ! r) r c = Inr v
             \<and> mc (coordinateKey r c) = Some g
             \<and> g (data ! r ! c) (data ! r) r c = Inl err
           \<longrightarrow> applyModifications (Some mc) data headings ! r ! c = v)
       \<and> length (applyModifications (Some mc) data headings) = length data
       \<and> (\<forall>i < length data.
            length (applyModifications (Some mc) data headings ! i) = length (data ! i))"
proof -
  let ?out = "applyModifications (Some mc) data headings"
  have cell: "?out ! r ! c = modifyCell mc headings (data ! r) r c (data ! r ! c)"
    using assms by (rule applyModifications_cell)
  have a: "\<forall>f err. mc (headingKey headings c) = Some f
             \<and> f (data ! r ! c) (data ! r) r c = Inl err
           \<longrightarrow> ?out ! r ! c = data ! r ! c"
    unfolding cell by (simp add: modifyCell_def)
  have b: "\<forall>g err. mc (headingKey headings c) = None
             \<and> mc (coordinateKey r c) = Some g
             \<and> g (data ! r ! c) (data ! r) r c = Inl err
           \<longrightarrow> ?out ! r ! c = data ! r ! c"
    unfolding cell by (simp add: modifyCell_def)
  have c: "\<forall>f g v err. mc (headingKey headings c) = Some f
             \<and> f (data ! r ! c) (data ! r) r c = Inr v
             \<and> mc (coordinateKey r c) = Some g
             \<and> g (data ! r ! c) (data ! r) r c = Inl err
           \<longrightarrow> ?out ! r ! c = v"
    unfolding cell by (simp add: modifyCell_def)
  from a b c applyModifications_shape [of mc data headings] show ?thesis
    by blast
qed

lemma exampleRules_keys:
  "exampleRules (headingKey [''Name'', ''Age''] 1) = Some markRule"
  "exampleRules (coordinateKey 0 1) = Some throwingRule"
  "exampleRules (headingKey [''Name'', ''Age''] 0) = None"
  "exampleRules (coordinateKey 0 0) = None"
  by (simp_all add: exampleRules_def headingKey_def coordinateKey_def digits.simps)

theorem applyModifications_on_throw_witness:
  "(0 :: nat) < length [[JStr ''Al'', JNum (Fin 25)]]
   \<and> (1 :: nat) < length ([[JStr ''Al'', JNum (Fin 25)]] ! 0)
   \<and> exampleRules (headingKey [''Name'', ''Age''] 1) = Some markRule
   \<and> markRule (JNum (Fin 25)) [JStr ''Al'', JNum (Fin 25)] 0 1 = Inr (JStr ''seen'')
   \<and> exampleRules (coordinateKey 0 1) = Some throwingRule
   \<and> throwingRule (JNum (Fin 25)) [JStr ''Al'', JNum (Fin 25)] 0 1 = Inl (JStr ''boom'')
   \<and> applyModifications (Some exampleRules) [[JStr ''Al'', JNum (Fin 25)]] [''Name'', ''Age'']
        ! 0 ! 1 = JStr ''seen''
   \<and> length (applyModifications (Some exampleRules) [[JStr ''Al'', JNum (Fin 25)]]
        [''Name'', ''Age'']) = 1"
proof -
  have r: "(0 :: nat) < length [[JStr ''Al'', JNum (Fin 25)]]" by simp
  have c: "(1 :: nat) < length ([[JStr ''Al'', JNum (Fin 25)]] ! 0)" by simp
  have m: "markRule (JNum (Fin 25)) [JStr ''Al'', JNum (Fin 25)] 0 1 = Inr (JStr ''seen'')"
    by (simp add: markRule_def)
  have t: "throwingRule (JNum (Fin 25)) [JStr ''Al'', JNum (Fin 25)] 0 1 = Inl (JStr ''boom'')"
    by (simp add: throwingRule_def)
  from applyModifications_on_throw [OF r c, of exampleRules "[''Name'', ''Age'']"]
  have "applyModifications (Some exampleRules) [[JStr ''Al'', JNum (Fin 25)]] [''Name'', ''Age'']
          ! 0 ! 1 = JStr ''seen''
      \<and> length (applyModifications (Some exampleRules) [[JStr ''Al'', JNum (Fin 25)]]
          [''Name'', ''Age'']) = 1"
    using m t exampleRules_keys by simp
  with r c m t exampleRules_keys show ?thesis by simp
qed

text \<open>
  Claim C3, as stated, fails when the heading rule has already replaced the value and
  the coordinate rule then throws: the output cell is the heading rule's result and not
  the original cell.
\<close>

theorem applyModifications_keeps_heading_result_counterexample:
  "throwingRule (JNum (Fin 25)) [JStr ''Al'', JNum (Fin 25)] 0 1 = Inl (JStr ''boom'')
   \<and> exampleRules (coordinateKey 0 1) = Some throwingRule
   \<and> applyModifications (Some exampleRules) [[JStr ''Al'', JNum (Fin 25)]] [''Name'', ''Age'']
        = [[JStr ''Al'', JStr ''seen'']]
   \<and> [[JStr ''Al'', JStr ''seen'']] ! 0 ! 1 \<noteq> [[JStr ''Al'', JNum (Fin 25)]] ! 0 ! 1"
  by (simp add: applyModifications_def map_index_def modifyCell_def exampleRules_def
      headingKey_def coordinateKey_def digits.simps markRule_def throwingRule_def)

section \<open>Properties of the cell classification\<close>

lemma positiveToString_26: "positiveToString P 26 = ''26''"
  by (simp add: positiveToString_def) (simp add: digits.simps)





text \<open>The markup of a table body on the example host, by evaluation.\<close>

lemma spaces_numeral: "spaces (numeral k) = CHR '' '' # spaces (pred_numeral k)"
  by (simp add: spaces_def numeral_eq_Suc)

lemma spaces_Suc: "spaces (Suc n) = CHR '' '' # spaces n" "spaces 0 = []"
  by (simp_all add: spaces_def)

lemmas markup_defs = generatedBody_def generatedRow_def generatedCell_def map_index_def
  renderCell_def headingKey_def nl_def spaces_numeral spaces_Suc digits.simps
  exampleBodyRows_def tagSeen_def isLetter_def

lemma host_bodyRows: "bodyRows exampleHost = exampleBodyRows"
  by (simp add: exampleHost_def)

text \<open>
  Claim C4 does not hold of the code. \<open>formatDateOrTimestamp\<close> maps an invalid date to
  the empty text, but neither caller reaches it: \<open>renderCell\<close> takes the object branch
  and \<open>getCellTextContent\<close> falls through its date test, and both serialise the date
  with \<open>JSON.stringify\<close>, which gives \<open>null\<close> for an invalid date. In the body of a
  table of that one cell, the text of the cell is \<open>null\<close> between the line breaks of
  the template.
\<close>

theorem invalid_date_text:
  "formatDateOrTimestamp P (JDate None) = []
   \<and> renderCell P (JDate None) r c = ''<pre class=\"table-library-object\">null</pre>''
   \<and> getCellTextContent P (JDate None) = JStr ''null''
   \<and> exportText P (JDate None) = ''null''
   \<and> bodyRows exampleHost (generatedBody exampleHost [''When''] [[JDate None]])
       = [[nl @ spaces 22 @ ''null'' @ nl @ spaces 20]]"
proof -
  have "bodyRows exampleHost (generatedBody exampleHost [''When''] [[JDate None]])
       = [[nl @ spaces 22 @ ''null'' @ nl @ spaces 20]]"
    by (simp add: markup_defs host_bodyRows stringifyPretty_def)
  then show ?thesis
    by (simp add: exportText_def renderCell_def getCellTextContent_def
        stringify_def stringifyPretty_def)
qed

section \<open>Properties of the aggregation\<close>

lemma definedRows_Some: "definedRows (map Some rows) = Some rows"
  by (induction rows) simp_all

lemma definedRows_None: "None \<in> set es \<Longrightarrow> definedRows es = None"
  by (induction es rule: definedRows.induct) auto

lemma digit_char: "k < 10 \<Longrightarrow> isDigit (''0123456789'' ! k)"
  unfolding isDigit_def by (rule nth_mem) simp

lemma digits_shape: "digits n \<noteq> [] \<and> list_all isDigit (digits n)"
proof (induction n rule: digits.induct)
  case (1 n)
  show ?case
  proof (cases "n < 10")
    case True
    then show ?thesis
      by (subst (1 2) digits.simps) (simp add: digit_char)
  next
    case False
    with "1" have "digits (n div 10) \<noteq> [] \<and> list_all isDigit (digits (n div 10))"
      by simp
    moreover have "isDigit (''0123456789'' ! (n mod 10))"
      by (rule digit_char) simp
    ultimately show ?thesis
      using False by (subst (1 2) digits.simps) simp
  qed
qed

lemma pad3_shape:
  assumes "list_all isDigit m"
  shows "3 \<le> length (pad3 m) \<and> list_all isDigit (pad3 m)"
proof -
  have "isDigit CHR ''0''" by (simp add: isDigit_def)
  with assms show ?thesis
    by (auto simp add: pad3_def list_all_iff)
qed

lemma fixed2_shape:
  "\<exists>whole cents. fixed2 x = whole @ ''.'' @ cents \<and> whole \<noteq> [] \<and> length cents = 2
     \<and> list_all isDigit whole \<and> list_all isDigit cents"
proof -
  let ?m = "pad3 (digits (nat \<lfloor>x * 100 + 1 / 2\<rfloor>))"
  from pad3_shape [of "digits (nat \<lfloor>x * 100 + 1 / 2\<rfloor>)"] digits_shape
  have len: "3 \<le> length ?m" and dig: "list_all isDigit ?m"
    by simp_all
  have eq: "fixed2 x = take (length ?m - 2) ?m @ ''.'' @ drop (length ?m - 2) ?m"
    by (simp add: fixed2_def Let_def)
  have "take (length ?m - 2) ?m \<noteq> []" using len by auto
  moreover have "length (drop (length ?m - 2) ?m) = 2" using len by simp
  moreover have "list_all isDigit (take (length ?m - 2) ?m)"
    using dig by (auto simp: list_all_iff dest: in_set_takeD)
  moreover have "list_all isDigit (drop (length ?m - 2) ?m)"
    using dig by (auto simp: list_all_iff dest: in_set_dropD)
  ultimately show ?thesis using eq by blast
qed

lemma twoDecimals_shape:
  assumes "whole \<noteq> []" and "length cents = 2"
    and "list_all isDigit whole" and "list_all isDigit cents"
  shows "twoDecimals (whole @ ''.'' @ cents)" and "twoDecimals (''-'' @ whole @ ''.'' @ cents)"
proof -
  from assms(1,3) have "hd whole \<noteq> CHR ''-''"
    by (cases whole) (auto simp: isDigit_def)
  with assms(1) have u: "unsigned (whole @ ''.'' @ cents) = whole @ ''.'' @ cents"
    by (cases whole) (simp_all add: unsigned_def)
  have body: "let body = whole @ ''.'' @ cents; k = length body
      in 4 \<le> k \<and> list_all isDigit (take (k - 3) body) \<and> body ! (k - 3) = CHR ''.''
         \<and> list_all isDigit (drop (k - 2) body)"
    using assms by (cases whole) (simp_all add: Let_def nth_append)
  from body u show "twoDecimals (whole @ ''.'' @ cents)"
    by (simp add: twoDecimals_def)
  from body show "twoDecimals (''-'' @ whole @ ''.'' @ cents)"
    by (simp add: twoDecimals_def unsigned_def)
qed

lemma toFixed2_twoDecimals:
  assumes "\<bar>q\<bar> < 10 ^ 21"
  shows "twoDecimals (toFixed2 P (Fin q))"
proof (cases "q < 0")
  case True
  from fixed2_shape [of "- q"] obtain whole cents where
    "fixed2 (- q) = whole @ ''.'' @ cents" "whole \<noteq> []" "length cents = 2"
    "list_all isDigit whole" "list_all isDigit cents"
    by blast
  with twoDecimals_shape(2) [of whole cents] True assms show ?thesis
    by simp
next
  case False
  from fixed2_shape [of q] obtain whole cents where
    "fixed2 q = whole @ ''.'' @ cents" "whole \<noteq> []" "length cents = 2"
    "list_all isDigit whole" "list_all isDigit cents"
    by blast
  with twoDecimals_shape(1) [of whole cents] False assms show ?thesis
    by simp
qed

lemma numeric_not_NaN: "v \<in> set (numeric x) \<Longrightarrow> \<not> isNaN v"
  by (cases x) (auto split: if_splits)

lemma columnValues_not_NaN: "v \<in> set (columnValues rows c) \<Longrightarrow> v \<noteq> NaN"
  by (auto simp: columnValues_def dest: numeric_not_NaN)

lemma js_le_refl: "x \<noteq> NaN \<Longrightarrow> js_le x x"
  by (cases x) simp_all

lemma js_le_trans: "js_le x y \<Longrightarrow> js_le y z \<Longrightarrow> js_le x z"
  by (cases x; cases y; cases z) simp_all

lemma js_max2_cases:
  "x \<noteq> NaN \<Longrightarrow> y \<noteq> NaN \<Longrightarrow>
     js_max2 x y \<noteq> NaN \<and> (js_max2 x y = x \<or> js_max2 x y = y)
     \<and> js_le x (js_max2 x y) \<and> js_le y (js_max2 x y)"
  by (cases x; cases y) (auto simp: max_def)

lemma js_min2_cases:
  "x \<noteq> NaN \<Longrightarrow> y \<noteq> NaN \<Longrightarrow>
     js_min2 x y \<noteq> NaN \<and> (js_min2 x y = x \<or> js_min2 x y = y)
     \<and> js_le (js_min2 x y) x \<and> js_le (js_min2 x y) y"
  by (cases x; cases y) (auto simp: min_def)

lemma foldl_max2:
  assumes "acc \<noteq> NaN" and "\<forall>v \<in> set ns. v \<noteq> NaN"
  shows "foldl js_max2 acc ns \<in> set (acc # ns)
       \<and> (\<forall>v \<in> set (acc # ns). js_le v (foldl js_max2 acc ns))"
  using assms
proof (induction ns arbitrary: acc)
  case Nil
  then show ?case by (simp add: js_le_refl)
next
  case (Cons n ns)
  from Cons.prems have n: "n \<noteq> NaN" and rest: "\<forall>v \<in> set ns. v \<noteq> NaN"
    by simp_all
  note step = js_max2_cases [OF Cons.prems(1) n]
  from Cons.IH [of "js_max2 acc n"] step rest
  have ih: "foldl js_max2 (js_max2 acc n) ns \<in> set (js_max2 acc n # ns)"
    "\<forall>v \<in> set (js_max2 acc n # ns). js_le v (foldl js_max2 (js_max2 acc n) ns)"
    by simp_all
  from ih(2) have top: "js_le (js_max2 acc n) (foldl js_max2 (js_max2 acc n) ns)"
    by simp
  from step top have "js_le acc (foldl js_max2 (js_max2 acc n) ns)"
    "js_le n (foldl js_max2 (js_max2 acc n) ns)"
    by (blast intro: js_le_trans)+
  with ih step show ?case by auto
qed

lemma foldl_min2:
  assumes "acc \<noteq> NaN" and "\<forall>v \<in> set ns. v \<noteq> NaN"
  shows "foldl js_min2 acc ns \<in> set (acc # ns)
       \<and> (\<forall>v \<in> set (acc # ns). js_le (foldl js_min2 acc ns) v)"
  using assms
proof (induction ns arbitrary: acc)
  case Nil
  then show ?case by (simp add: js_le_refl)
next
  case (Cons n ns)
  from Cons.prems have n: "n \<noteq> NaN" and rest: "\<forall>v \<in> set ns. v \<noteq> NaN"
    by simp_all
  note step = js_min2_cases [OF Cons.prems(1) n]
  from Cons.IH [of "js_min2 acc n"] step rest
  have ih: "foldl js_min2 (js_min2 acc n) ns \<in> set (js_min2 acc n # ns)"
    "\<forall>v \<in> set (js_min2 acc n # ns). js_le (foldl js_min2 (js_min2 acc n) ns) v"
    by simp_all
  from ih(2) have top: "js_le (foldl js_min2 (js_min2 acc n) ns) (js_min2 acc n)"
    by simp
  from step top have "js_le (foldl js_min2 (js_min2 acc n) ns) acc"
    "js_le (foldl js_min2 (js_min2 acc n) ns) n"
    by (blast intro: js_le_trans)+
  with ih step show ?case by auto
qed

lemma Math_max_greatest:
  assumes "ns \<noteq> []" and "\<forall>v \<in> set ns. v \<noteq> NaN"
  shows "Math_max ns \<in> set ns \<and> (\<forall>v \<in> set ns. js_le v (Math_max ns))"
proof -
  from foldl_max2 [of NegInf ns] assms(2)
  have m: "Math_max ns = NegInf \<or> Math_max ns \<in> set ns"
    and ub: "\<forall>v \<in> set ns. js_le v (Math_max ns)"
    by (simp_all add: Math_max_def)
  from assms(1) obtain v where v: "v \<in> set ns" by (cases ns) auto
  have "Math_max ns \<in> set ns"
  proof (cases "Math_max ns = NegInf")
    case True
    with ub v have "js_le v NegInf" by auto
    then have "v = NegInf" by (cases v) simp_all
    with v True show ?thesis by simp
  next
    case False
    with m show ?thesis by simp
  qed
  with ub show ?thesis by simp
qed

lemma Math_min_least:
  assumes "ns \<noteq> []" and "\<forall>v \<in> set ns. v \<noteq> NaN"
  shows "Math_min ns \<in> set ns \<and> (\<forall>v \<in> set ns. js_le (Math_min ns) v)"
proof -
  from foldl_min2 [of PosInf ns] assms(2)
  have m: "Math_min ns = PosInf \<or> Math_min ns \<in> set ns"
    and lb: "\<forall>v \<in> set ns. js_le (Math_min ns) v"
    by (simp_all add: Math_min_def)
  from assms(1) obtain v where v: "v \<in> set ns" by (cases ns) auto
  have "Math_min ns \<in> set ns"
  proof (cases "Math_min ns = PosInf")
    case True
    with lb v have "js_le PosInf v" by auto
    then have "v = PosInf" by (cases v) simp_all
    with v True show ?thesis by simp
  next
    case False
    with m show ?thesis by simp
  qed
  with lb show ?thesis by simp
qed

text \<open>Rounding is exact on the integers below \<open>2^53\<close>, so that the sum of
  non-negative integers with a total below \<open>2^53\<close> is their arithmetic sum.\<close>

lemma round_even_int: "round_even (of_int z) = z"
  by (simp add: round_even_def Let_def)

lemma round_double_nat:
  assumes "n < 2 ^ 53"
  shows "round_double (of_nat n) = Fin (of_nat n)"
proof (cases "n = 0")
  case True
  then show ?thesis by (simp add: round_double_def)
next
  case False
  define b where "b = bitlen (int n) - 1"
  from False have pos: "0 < int n" by simp
  from bitlen_bounds [OF pos] have lo: "2 ^ nat b \<le> int n" and hi: "int n < 2 ^ nat (bitlen (int n))"
    by (simp_all add: b_def)
  from pos have "bitlen (int n) \<noteq> 0"
    by (simp add: bitlen_eq_zero_iff)
  with bitlen_nonneg [of "int n"] have b0: "0 \<le> b"
    by (simp add: b_def)
  from lo assms have "(2 :: int) ^ nat b < 2 ^ 53"
    by (metis le_less_trans of_nat_less_numeral_power_cancel_iff)
  then have "nat b < 53"
    by (rule power_less_imp_less_exp [rotated]) simp
  with b0 have b52: "b \<le> 52" by simp
  define k where "k = nat (52 - b)"
  have fl: "floor_log2 (of_nat n) = b"
    using False by (simp add: floor_log2_def b_def)
  have p: "pow2 (b - 52) = 1 / 2 ^ k"
    using b52 by (cases "b = 52") (simp_all add: pow2_def k_def)
  have scaled: "(of_nat n :: rat) / pow2 (b - 52) = of_int (int n * 2 ^ k)"
    by (simp add: p)
  have m: "round_even ((of_nat n :: rat) / pow2 (b - 52)) = int n * 2 ^ k"
    unfolding scaled by (rule round_even_int)
  have undo: "(of_int (int n * 2 ^ k) :: rat) * pow2 (b - 52) = of_nat n"
    by (simp add: p)
  from b0 b52 have mx: "max b (- 1022) = b" by simp
  show ?thesis
    using False b52 undo
    by (simp add: round_double_def Let_def fl mx m)
qed

lemma sum_nats_exact:
  "a + sum_list ns < 2 ^ 53 \<Longrightarrow>
     foldl js_add (Fin (of_nat a)) (map (\<lambda>k. Fin (of_nat k)) ns) = Fin (of_nat (a + sum_list ns))"
proof (induction ns arbitrary: a)
  case Nil
  then show ?case by simp
next
  case (Cons n ns)
  from Cons.prems have small: "a + n < 2 ^ 53" by simp
  have "js_add (Fin (of_nat a)) (Fin (of_nat n)) = Fin (of_nat (a + n))"
    using round_double_nat [OF small] by simp
  moreover from Cons.prems have "(a + n) + sum_list ns < 2 ^ 53" by (simp add: add.assoc)
  ultimately show ?case
    using Cons.IH [of "a + n"] by (simp add: add.assoc)
qed

lemma js_sum_nats:
  assumes "sum_list ns < 2 ^ 53"
  shows "js_sum (map (\<lambda>k. Fin (of_nat k)) ns) = Fin (of_nat (sum_list ns))"
  using sum_nats_exact [of 0 ns] assms by (simp add: js_sum_def)

text \<open>
  Claim C8, as amended. When the column holds no number other than NaN among the
  filtered rows, the result is the empty text, for every metric. Otherwise the result
  is \<open>toFixed(2)\<close> of the sum and of the sum divided by the count, for \<open>sum\<close> and
  \<open>avg\<close>, and of the greatest and of the least of those numbers, for \<open>max\<close> and
  \<open>min\<close>, as long as the engine takes that many numbers as the arguments of one
  call; with more of them \<open>max\<close> and \<open>min\<close> throw a RangeError. The sum is the
  sum of doubles, which is the arithmetic sum for non-negative integers with a total
  below \<open>2^53\<close>. The text has exactly two decimal places whenever the number
  formatted is finite and of magnitude below \<open>10^21\<close>. When an entry of the
  filtered array is \<open>undefined\<close>, reading its column throws a TypeError, for every
  metric.
\<close>

theorem calculateMetric_result:
  "(columnValues rows c = [] \<longrightarrow> calculateMetric P (map Some rows) c metric = Inr [])
   \<and> (columnValues rows c \<noteq> [] \<longrightarrow>
         calculateMetric P (map Some rows) c ''sum''
           = Inr (toFixed2 P (js_sum (columnValues rows c)))
       \<and> calculateMetric P (map Some rows) c ''avg''
           = Inr (toFixed2 P (js_div_length (js_sum (columnValues rows c))
               (length (columnValues rows c))))
       \<and> (length (columnValues rows c) \<le> maxArguments P \<longrightarrow>
             calculateMetric P (map Some rows) c ''max''
               = Inr (toFixed2 P (Math_max (columnValues rows c)))
           \<and> calculateMetric P (map Some rows) c ''min''
               = Inr (toFixed2 P (Math_min (columnValues rows c))))
       \<and> (maxArguments P < length (columnValues rows c) \<longrightarrow>
             calculateMetric P (map Some rows) c ''max''
               = Inl (RangeError ''Maximum call stack size exceeded'')
           \<and> calculateMetric P (map Some rows) c ''min''
               = Inl (RangeError ''Maximum call stack size exceeded''))
       \<and> Math_max (columnValues rows c) \<in> set (columnValues rows c)
       \<and> (\<forall>v \<in> set (columnValues rows c). js_le v (Math_max (columnValues rows c)))
       \<and> Math_min (columnValues rows c) \<in> set (columnValues rows c)
       \<and> (\<forall>v \<in> set (columnValues rows c). js_le (Math_min (columnValues rows c)) v))
   \<and> (sum_list ns < 2 ^ 53
        \<longrightarrow> js_sum (map (\<lambda>k. Fin (of_nat k)) ns) = Fin (of_nat (sum_list ns)))
   \<and> (\<bar>q\<bar> < 10 ^ 21 \<longrightarrow> twoDecimals (toFixed2 P (Fin q)))
   \<and> (None \<in> set filtered \<longrightarrow>
         calculateMetric P filtered c metric
           = Inl (TypeError ''Cannot read properties of undefined''))"
proof -
  let ?vals = "columnValues rows c"
  let ?es = "map Some rows"
  have none: "?vals = [] \<longrightarrow> calculateMetric P ?es c metric = Inr []"
    by (simp add: calculateMetric_def definedRows_Some)
  have some: "?vals \<noteq> [] \<longrightarrow>
         calculateMetric P ?es c ''sum'' = Inr (toFixed2 P (js_sum ?vals))
       \<and> calculateMetric P ?es c ''avg''
           = Inr (toFixed2 P (js_div_length (js_sum ?vals) (length ?vals)))"
    by (simp add: calculateMetric_def definedRows_Some Let_def)
  have few: "?vals \<noteq> [] \<longrightarrow> length ?vals \<le> maxArguments P \<longrightarrow>
         calculateMetric P ?es c ''max'' = Inr (toFixed2 P (Math_max ?vals))
       \<and> calculateMetric P ?es c ''min'' = Inr (toFixed2 P (Math_min ?vals))"
    by (simp add: calculateMetric_def definedRows_Some Let_def)
  have many: "?vals \<noteq> [] \<longrightarrow> maxArguments P < length ?vals \<longrightarrow>
         calculateMetric P ?es c ''max'' = Inl (RangeError ''Maximum call stack size exceeded'')
       \<and> calculateMetric P ?es c ''min'' = Inl (RangeError ''Maximum call stack size exceeded'')"
    by (simp add: calculateMetric_def definedRows_Some Let_def)
  have nan: "\<forall>v \<in> set ?vals. v \<noteq> NaN"
    by (auto dest: columnValues_not_NaN)
  have ext: "?vals \<noteq> [] \<longrightarrow>
         Math_max ?vals \<in> set ?vals \<and> (\<forall>v \<in> set ?vals. js_le v (Math_max ?vals))
       \<and> Math_min ?vals \<in> set ?vals \<and> (\<forall>v \<in> set ?vals. js_le (Math_min ?vals) v)"
    using Math_max_greatest [OF _ nan] Math_min_least [OF _ nan] by blast
  have undef: "None \<in> set filtered \<longrightarrow>
         calculateMetric P filtered c metric
           = Inl (TypeError ''Cannot read properties of undefined'')"
    by (simp add: calculateMetric_def definedRows_None)
  from none some few many ext js_sum_nats [of ns] toFixed2_twoDecimals [of q P] undef
  show ?thesis
    by blast
qed

lemma floor_rat_numeral: "\<lfloor>numeral a / numeral b :: rat\<rfloor> = numeral a div numeral b"
  using floor_divide_of_int_eq [of "numeral a" "numeral b", where ?'a = rat] by simp

lemma example_metric:
  "columnValues [[JStr ''Al'', JNum (Fin 26)], [JStr ''Bob'', JNum (Fin 31)], [JStr ''Cy'', JStr ''7'']]
     (Suc 0) = [Fin 26, Fin 31]"
  "columnValues [[JStr ''Al'', JNum NaN], [JStr ''Bob'', JStr ''31'']] (Suc 0) = []"
  by (simp_all add: columnValues_def js_nth_def)

lemma example_sum: "js_sum [Fin 26, Fin 31] = Fin 57"
  using js_sum_nats [of "[26, 31]"] by simp

lemma example_avg: "js_div_length (Fin 57) 2 = Fin (57 / 2)"
  by code_simp

lemma example_extrema: "Math_max [Fin 26, Fin 31] = Fin 31" "Math_min [Fin 26, Fin 31] = Fin 26"
  by (simp_all add: Math_max_def Math_min_def)

lemma example_digits:
  "digits 5700 = ''5700''" "digits 2850 = ''2850''" "digits 3100 = ''3100''"
  "digits 2600 = ''2600''"
  by (simp_all add: digits.simps)

lemma example_fixed:
  "toFixed2 P (Fin 57) = ''57.00''" "toFixed2 P (Fin (57 / 2)) = ''28.50''"
  "toFixed2 P (Fin 31) = ''31.00''" "toFixed2 P (Fin 26) = ''26.00''"
  by (simp_all add: fixed2_def pad3_def floor_rat_numeral example_digits)

theorem calculateMetric_result_witness:
  "columnValues [[JStr ''Al'', JNum NaN], [JStr ''Bob'', JStr ''31'']] (Suc 0) = []
   \<and> calculateMetric exampleHost
        (map Some [[JStr ''Al'', JNum NaN], [JStr ''Bob'', JStr ''31'']]) (Suc 0) ''sum'' = Inr []
   \<and> columnValues
        [[JStr ''Al'', JNum (Fin 26)], [JStr ''Bob'', JNum (Fin 31)], [JStr ''Cy'', JStr ''7'']]
        (Suc 0) \<noteq> []
   \<and> length (columnValues
        [[JStr ''Al'', JNum (Fin 26)], [JStr ''Bob'', JNum (Fin 31)], [JStr ''Cy'', JStr ''7'']]
        (Suc 0)) \<le> maxArguments exampleHost
   \<and> calculateMetric exampleHost (map Some
        [[JStr ''Al'', JNum (Fin 26)], [JStr ''Bob'', JNum (Fin 31)], [JStr ''Cy'', JStr ''7'']])
        (Suc 0) ''sum'' = Inr ''57.00''
   \<and> calculateMetric exampleHost (map Some
        [[JStr ''Al'', JNum (Fin 26)], [JStr ''Bob'', JNum (Fin 31)], [JStr ''Cy'', JStr ''7'']])
        (Suc 0) ''avg'' = Inr ''28.50''
   \<and> calculateMetric exampleHost (map Some
        [[JStr ''Al'', JNum (Fin 26)], [JStr ''Bob'', JNum (Fin 31)], [JStr ''Cy'', JStr ''7'']])
        (Suc 0) ''max'' = Inr ''31.00''
   \<and> calculateMetric exampleHost (map Some
        [[JStr ''Al'', JNum (Fin 26)], [JStr ''Bob'', JNum (Fin 31)], [JStr ''Cy'', JStr ''7'']])
        (Suc 0) ''min'' = Inr ''26.00''
   \<and> maxArguments (exampleHost\<lparr>maxArguments := 1\<rparr>) < length (columnValues
        [[JStr ''Al'', JNum (Fin 26)], [JStr ''Bob'', JNum (Fin 31)], [JStr ''Cy'', JStr ''7'']]
        (Suc 0))
   \<and> calculateMetric (exampleHost\<lparr>maxArguments := 1\<rparr>) (map Some
        [[JStr ''Al'', JNum (Fin 26)], [JStr ''Bob'', JNum (Fin 31)], [JStr ''Cy'', JStr ''7'']])
        (Suc 0) ''max'' = Inl (RangeError ''Maximum call stack size exceeded'')
   \<and> sum_list [26, 31 :: nat] < 2 ^ 53
   \<and> \<bar>57 / 2 :: rat\<bar> < 10 ^ 21
   \<and> twoDecimals ''28.50''
   \<and> None \<in> set [Some [JStr ''<tr>''], None]
   \<and> calculateMetric exampleHost [Some [JStr ''<tr>''], None] (Suc 0) ''sum''
       = Inl (TypeError ''Cannot read properties of undefined'')"
proof -
  let ?none = "[[JStr ''Al'', JNum NaN], [JStr ''Bob'', JStr ''31'']]"
  let ?rows = "[[JStr ''Al'', JNum (Fin 26)], [JStr ''Bob'', JNum (Fin 31)], [JStr ''Cy'', JStr ''7'']]"
  let ?tiny = "exampleHost\<lparr>maxArguments := 1\<rparr>"
  have small: "sum_list [26, 31 :: nat] < 2 ^ 53" by simp
  have bound: "\<bar>57 / 2 :: rat\<bar> < 10 ^ 21" by simp
  have nonempty: "columnValues ?rows (Suc 0) \<noteq> []"
    unfolding example_metric by simp
  have few: "length (columnValues ?rows (Suc 0)) \<le> maxArguments exampleHost"
    unfolding example_metric by (simp add: exampleHost_def)
  have many: "maxArguments ?tiny < length (columnValues ?rows (Suc 0))"
    unfolding example_metric by simp
  from calculateMetric_result [of ?none "Suc 0" exampleHost "''sum''" "[26, 31]" "57 / 2"]
  have a: "calculateMetric exampleHost (map Some ?none) (Suc 0) ''sum'' = Inr []"
    using example_metric(2) by blast
  from calculateMetric_result [of ?rows "Suc 0" exampleHost "''sum''" "[26, 31]" "57 / 2"]
    nonempty bound few
  have b: "calculateMetric exampleHost (map Some ?rows) (Suc 0) ''sum''
        = Inr (toFixed2 exampleHost (js_sum (columnValues ?rows (Suc 0))))
      \<and> calculateMetric exampleHost (map Some ?rows) (Suc 0) ''avg''
        = Inr (toFixed2 exampleHost (js_div_length (js_sum (columnValues ?rows (Suc 0)))
            (length (columnValues ?rows (Suc 0)))))
      \<and> calculateMetric exampleHost (map Some ?rows) (Suc 0) ''max''
        = Inr (toFixed2 exampleHost (Math_max (columnValues ?rows (Suc 0))))
      \<and> calculateMetric exampleHost (map Some ?rows) (Suc 0) ''min''
        = Inr (toFixed2 exampleHost (Math_min (columnValues ?rows (Suc 0))))
      \<and> twoDecimals (toFixed2 exampleHost (Fin (57 / 2)))"
    by blast
  from calculateMetric_result [of ?rows "Suc 0" ?tiny "''sum''" "[26, 31]" "57 / 2"]
    nonempty many
  have r: "calculateMetric ?tiny (map Some ?rows) (Suc 0) ''max''
        = Inl (RangeError ''Maximum call stack size exceeded'')"
    by blast
  have two: "length [Fin 26, Fin 31 :: jsnum] = 2" by simp
  from b have c: "calculateMetric exampleHost (map Some ?rows) (Suc 0) ''sum'' = Inr ''57.00''
      \<and> calculateMetric exampleHost (map Some ?rows) (Suc 0) ''avg'' = Inr ''28.50''
      \<and> calculateMetric exampleHost (map Some ?rows) (Suc 0) ''max'' = Inr ''31.00''
      \<and> calculateMetric exampleHost (map Some ?rows) (Suc 0) ''min'' = Inr ''26.00''
      \<and> twoDecimals ''28.50''"
    unfolding example_metric example_sum two example_avg example_extrema example_fixed .
  have undef: "None \<in> set [Some [JStr ''<tr>''], None :: entry]"
    by simp
  from calculateMetric_result [of ?none "Suc 0" exampleHost "''sum''" "[26, 31]" "57 / 2"
      "[Some [JStr ''<tr>''], None]"] undef
  have u: "calculateMetric exampleHost [Some [JStr ''<tr>''], None] (Suc 0) ''sum''
        = Inl (TypeError ''Cannot read properties of undefined'')"
    by blast
  from a c r u undef nonempty few many small bound example_metric(2) show ?thesis
    by blast
qed

text \<open>
  Claim C8, as stated, fails for a column that holds an infinity: it is a number and
  not NaN, the sum is that infinity, and \<open>toFixed(2)\<close> prints it as \<open>Infinity\<close>, which
  has no decimal places.
\<close>

theorem calculateMetric_infinity_counterexample:
  "columnValues [[JNum PosInf]] 0 = [PosInf]
   \<and> calculateMetric exampleHost [Some [JNum PosInf]] 0 ''sum'' = Inr ''Infinity''
   \<and> \<not> twoDecimals ''Infinity''"
  by (simp add: calculateMetric_def columnValues_def js_nth_def js_sum_def twoDecimals_def
      unsigned_def isDigit_def)

section \<open>Properties of the views\<close>

lemma mset_insert_by: "mset (insert_by cmp x ys) = add_mset x (mset ys)"
  by (induction ys) simp_all

lemma mset_js_sort: "mset (js_sort cmp xs) = mset xs"
  unfolding js_sort_def by (induction xs) (simp_all add: mset_insert_by)

lemma length_js_sort: "length (js_sort cmp xs) = length xs"
  using mset_js_sort [of cmp xs] by (metis size_mset)

lemma subseq_filter_from: "subseq (filter_from p k xs) xs"
  by (induction xs arbitrary: k) (auto intro: list_emb.intros)

lemma map_entryAt_in_range:
  assumes "\<forall>i \<in> set is. i < length d"
  shows "map (entryAt d) is = map Some (map (\<lambda>i. d ! i) is)"
  using assms by (induction "is") (simp_all add: entryAt_def)

lemma subseq_visible:
  "subseq (map (\<lambda>i. d ! i) (filter p [0..<length d])) d"
proof -
  have "map (\<lambda>i. d ! i) (filter p [0..<length d]) = filter_index p d"
    by (simp only: filter_index_nth)
  then show ?thesis
    by (simp only: filter_index_def subseq_filter_from)
qed

subsection \<open>One sort\<close>

lemmas sort_defs = sortByColumn_def refreshTableBody_def alloc_def allocEntries_def Let_def

lemma sort_frame:
  "config (fst (sortByColumn P c s)) = config s"
  "processedData (fst (sortByColumn P c s)) = processedData s"
  "processedHeadings (fst (sortByColumn P c s)) = processedHeadings s"
  by (simp_all add: sort_defs split: option.splits)

lemma sort_state_next:
  "sortState (fst (sortByColumn P c s)) =
     (if colIndex (sortState s) = Some c \<and> direction (sortState s) = Some Asc
      then \<lparr>colIndex = Some c, direction = Some Desc\<rparr>
      else if colIndex (sortState s) = Some c \<and> direction (sortState s) = Some Desc
      then \<lparr>colIndex = None, direction = None\<rparr>
      else \<lparr>colIndex = Some c, direction = Some Asc\<rparr>)"
  by (simp add: sort_defs split: option.splits)

lemma sort_filtered_copy:
  "filteredRows (fst (sortByColumn P c s)) = map Some (displayedRows (fst (sortByColumn P c s)))"
  by (simp add: sort_defs filteredRows_def displayedRows_def split: option.splits)

lemma sort_apart:
  assumes "viewsApart s"
  shows "viewsApart (fst (sortByColumn P c s))"
  using assms by (auto simp add: sort_defs viewsApart_def split: option.splits)

lemma sort_heap_kept:
  assumes "r < nxt s" and "r \<noteq> displayData s"
  shows "heap (fst (sortByColumn P c s)) r = heap s r"
  using assms by (auto simp add: sort_defs split: option.splits)

lemma sort_displayed:
  assumes "viewsApart s"
  shows "mset (displayedRows (fst (sortByColumn P c s))) = mset (displayedRows s)
       \<or> displayedRows (fst (sortByColumn P c s)) = processedRows s"
  using assms
  by (auto simp add: sort_defs viewsApart_def displayedRows_def processedRows_def mset_js_sort
      split: option.splits)

lemma sort_reset:
  assumes "viewsApart s"
    and "colIndex (sortState s) = Some c" and "direction (sortState s) = Some Desc"
  shows "displayedRows (fst (sortByColumn P c s)) = processedRows s
       \<and> nxt s \<le> displayData (fst (sortByColumn P c s))"
  using assms
  by (simp add: sort_defs viewsApart_def displayedRows_def processedRows_def
      split: option.splits)

text \<open>A sort that sets a direction orders the displayed rows by the comparison of
  that column and direction.\<close>

lemma sort_sorted:
  assumes "viewsApart s"
    and "\<not> (colIndex (sortState s) = Some c \<and> direction (sortState s) = Some Desc)"
  shows "displayedRows (fst (sortByColumn P c s))
       = js_sort (compareRows P c
           (if colIndex (sortState s) = Some c \<and> direction (sortState s) = Some Asc
            then Desc else Asc))
           (displayedRows s)"
  using assms
  by (auto simp add: sort_defs viewsApart_def displayedRows_def split: option.splits)

lemma sort_fresh:
  assumes "viewsApart s"
  shows "nxt s \<le> filteredData (fst (sortByColumn P c s))
       \<and> filteredData (fst (sortByColumn P c s)) \<noteq> displayData (fst (sortByColumn P c s))"
  using assms by (auto simp add: sort_defs viewsApart_def split: option.splits)

text \<open>With the table body in the document, every call of \<open>sortByColumn\<close> ends by
  throwing the TypeError of the missing method, once the state and the body have been
  updated; the properties of this section are about that updated state.\<close>

lemma sort_throws:
  "tbody s = Some body \<Longrightarrow>
     snd (sortByColumn P c s) = Some (TypeError ''this.updateRowCount is not a function'')"
  by (simp add: sort_defs split: option.splits)

lemma sort_processed:
  assumes "viewsApart s"
  shows "processedRows (fst (sortByColumn P c s)) = processedRows s"
proof -
  from assms have "processedData s < nxt s" and "processedData s \<noteq> displayData s"
    by (auto simp: viewsApart_def)
  then show ?thesis
    by (simp add: processedRows_def sort_frame sort_heap_kept)
qed

lemma sort_permutation:
  assumes "viewsApart s" and "mset (displayedRows s) = mset (processedRows s)"
  shows "mset (displayedRows (fst (sortByColumn P c s)))
           = mset (processedRows (fst (sortByColumn P c s)))"
  using assms sort_displayed [OF assms(1), of P c] sort_processed [OF assms(1), of P c]
  by auto

subsection \<open>One filter\<close>

lemmas filter_defs = filterTable_def allocEntries_def Let_def

lemma filter_frame:
  "config (filterTable inputs s) = config s"
  "processedData (filterTable inputs s) = processedData s"
  "processedHeadings (filterTable inputs s) = processedHeadings s"
  "displayData (filterTable inputs s) = displayData s"
  "sortState (filterTable inputs s) = sortState s"
  "tbody (filterTable inputs s) = tbody s"
  "heap (filterTable inputs s) = heap s"
  by (simp_all add: filter_defs)

lemma filter_apart:
  assumes "viewsApart s"
  shows "viewsApart (filterTable inputs s)"
  using assms by (auto simp add: filter_defs viewsApart_def)

lemma filter_views:
  "displayedRows (filterTable inputs s) = displayedRows s
   \<and> processedRows (filterTable inputs s) = processedRows s"
  by (simp add: displayedRows_def processedRows_def filter_frame)

lemma filter_entries:
  "filteredRows (filterTable inputs s)
     = map (entryAt (displayedRows s))
         (visibleRowIndexes inputs (case tbody s of None \<Rightarrow> [] | Some body \<Rightarrow> body))"
  by (simp add: filter_defs filteredRows_def displayedRows_def)

text \<open>When the body has one row element per displayed row, a filter leaves a
  subsequence of the displayed rows, with no \<open>undefined\<close> among them.\<close>

lemma filter_subseq_in_step:
  assumes "bodyInStep s"
  shows "\<exists>rows. filteredRows (filterTable inputs s) = map Some rows
           \<and> subseq rows (displayedRows (filterTable inputs s))"
proof (cases "tbody s")
  case None
  then show ?thesis
    by (simp add: filter_entries filter_views visibleRowIndexes_def)
next
  case (Some body)
  let ?d = "displayedRows s"
  let ?vis = "visibleRowIndexes inputs body"
  from assms Some have len: "length body = length ?d"
    by (simp add: bodyInStep_def)
  then have "\<forall>i \<in> set ?vis. i < length ?d"
    by (simp add: visibleRowIndexes_def)
  from map_entryAt_in_range [OF this]
  have e: "filteredRows (filterTable inputs s) = map Some (map (\<lambda>i. ?d ! i) ?vis)"
    by (simp add: filter_entries Some)
  have "subseq (map (\<lambda>i. ?d ! i) ?vis) ?d"
    unfolding visibleRowIndexes_def len by (rule subseq_visible)
  with e show ?thesis
    unfolding filter_views [THEN conjunct1] by blast
qed

subsection \<open>Initialisation\<close>

lemmas init_defs = newTable_def init_def alloc_def allocEntries_def Let_def

lemma new_config:
  "config (newTable P found headings data hc mc)
     = \<lparr>cfg_headings = headings, cfg_data = 0, cfg_hideColumns = hc, cfg_modifyConfig = mc\<rparr>"
  by (simp add: init_defs split: option.splits prod.splits)

lemma new_raw: "heap (newTable P found headings data hc mc) 0 = data"
  by (simp add: init_defs split: option.splits prod.splits)

lemma new_apart: "viewsApart (newTable P found headings data hc mc)"
  by (simp add: init_defs viewsApart_def split: option.splits prod.splits)

lemma new_views:
  "filteredRows (newTable P found headings data hc mc)
     = map Some (processedRows (newTable P found headings data hc mc))
   \<and> displayedRows (newTable P found headings data hc mc)
     = processedRows (newTable P found headings data hc mc)"
  by (simp add: init_defs filteredRows_def displayedRows_def processedRows_def
      split: option.splits prod.splits)

lemma new_processed:
  "processedRows (newTable P found headings data hc mc)
     = applyModifications mc (snd (hideColumns hc headings data)) (fst (hideColumns hc headings data))"
  by (simp add: init_defs processedRows_def applyModifications_def
      split: option.splits prod.splits)

lemma new_headings:
  "processedHeadings (newTable P found headings data hc mc) = fst (hideColumns hc headings data)"
  by (simp add: init_defs split: option.splits prod.splits)

lemma new_tbody:
  "tbody (newTable P True headings data hc mc)
     = Some (bodyRows P (generatedBody P (fst (hideColumns hc headings data))
         (processedRows (newTable P True headings data hc mc))))"
  by (simp add: init_defs processedRows_def split: option.splits prod.splits)

lemma new_sortState:
  "sortState (newTable P found headings data hc mc) = \<lparr>colIndex = None, direction = None\<rparr>"
  by (simp add: init_defs split: option.splits prod.splits)

subsection \<open>Any sequence of sorts and filters\<close>

lemma step_apart: "viewsApart s \<Longrightarrow> viewsApart (step P s a)"
  by (cases a) (simp_all add: sort_apart filter_apart)

lemma step_permutation:
  "viewsApart s \<Longrightarrow> mset (displayedRows s) = mset (processedRows s) \<Longrightarrow>
     mset (displayedRows (step P s a)) = mset (processedRows (step P s a))"
  by (cases a) (simp_all add: sort_permutation filter_views)

lemma step_sortStateOk: "sortStateOk s \<Longrightarrow> sortStateOk (step P s a)"
  by (cases a) (simp_all add: sortStateOk_def sort_state_next filter_frame)

lemma step_config: "config (step P s a) = config s"
  by (cases a) (simp_all add: sort_frame filter_frame)

lemma step_processed:
  "viewsApart s \<Longrightarrow>
     processedData (step P s a) = processedData s \<and> processedRows (step P s a) = processedRows s"
  by (cases a) (simp_all add: sort_frame sort_processed filter_frame filter_views)

lemma step_raw:
  assumes "viewsApart s"
  shows "heap (step P s a) (cfg_data (config s)) = heap s (cfg_data (config s))"
proof -
  from assms have "cfg_data (config s) < nxt s" and "cfg_data (config s) \<noteq> displayData s"
    by (auto simp: viewsApart_def)
  then show ?thesis
    by (cases a) (simp_all add: sort_heap_kept filter_frame)
qed

lemma run_snoc: "run P s (acts @ [a]) = step P (run P s acts) a"
  by (simp add: run_def)

lemma run_apart: "viewsApart s \<Longrightarrow> viewsApart (run P s acts)"
  by (induction acts rule: rev_induct) (simp_all add: run_def step_apart)

text \<open>The displayed rows are a permutation of the processed rows after the
  construction and after every sort and every filter.\<close>

lemma run_permutation:
  "viewsApart s \<Longrightarrow> mset (displayedRows s) = mset (processedRows s) \<Longrightarrow>
     mset (displayedRows (run P s acts)) = mset (processedRows (run P s acts))"
proof (induction acts rule: rev_induct)
  case Nil
  then show ?case by (simp add: run_def)
next
  case (snoc a acts)
  then show ?case
    using run_apart [of s P acts] by (simp add: run_snoc step_permutation)
qed

lemma run_sortStateOk: "sortStateOk s \<Longrightarrow> sortStateOk (run P s acts)"
  by (induction acts rule: rev_induct) (simp_all add: run_def step_sortStateOk)

lemma run_config: "config (run P s acts) = config s"
  by (induction acts rule: rev_induct) (simp_all add: run_def step_config)

lemma run_processed:
  "viewsApart s \<Longrightarrow>
     processedData (run P s acts) = processedData s \<and> processedRows (run P s acts) = processedRows s"
proof (induction acts rule: rev_induct)
  case Nil
  then show ?case by (simp add: run_def)
next
  case (snoc a acts)
  then show ?case
    using run_apart [of s P acts] step_processed [of "run P s acts" P a]
    by (simp add: run_snoc)
qed

lemma run_raw:
  "viewsApart s \<Longrightarrow> heap (run P s acts) (cfg_data (config s)) = heap s (cfg_data (config s))"
proof (induction acts rule: rev_induct)
  case Nil
  then show ?case by (simp add: run_def)
next
  case (snoc a acts)
  then show ?case
    using run_apart [of s P acts] step_raw [of "run P s acts" P a]
    by (simp add: run_snoc run_config)
qed

subsection \<open>The claims about the views\<close>

text \<open>The examples: the table of two rows, and the table whose cell is the text
  \<open><tr>\<close>. The markup of the body is evaluated and read back by the host.\<close>

lemma example_processed:
  "processedRows exampleTable = [[JStr ''Bob'', JNum (Fin 30)], [JStr ''Al'', JNum (Fin 25)]]"
  unfolding exampleTable_def new_processed by code_simp

lemma example_headings:
  "fst (hideColumns (JArr []) [''Name'', ''Age''] exampleRows) = [''Name'', ''Age'']"
  by code_simp

lemma example_displayed:
  "displayedRows exampleTable = [[JStr ''Bob'', JNum (Fin 30)], [JStr ''Al'', JNum (Fin 25)]]"
  using new_views [of exampleHost True "[''Name'', ''Age'']" exampleRows "JArr []" "Some (\<lambda>key. None)"]
  by (simp add: example_processed exampleTable_def [symmetric])

lemma example_apart: "viewsApart exampleTable"
  by (simp add: exampleTable_def new_apart)

lemma example_unsorted: "sortState exampleTable = \<lparr>colIndex = None, direction = None\<rparr>"
  by (simp add: exampleTable_def new_sortState)

lemma example_30: "positiveToString exampleHost 30 = ''30''"
  by (simp add: positiveToString_def) (simp add: digits.simps)

lemma example_25: "positiveToString exampleHost 25 = ''25''"
  by (simp add: positiveToString_def) (simp add: digits.simps)

lemma example_body:
  "tbody exampleTable
     = Some [[nl @ spaces 22 @ ''Bob'' @ nl @ spaces 20, nl @ spaces 22 @ ''30'' @ nl @ spaces 20],
             [nl @ spaces 22 @ ''Al'' @ nl @ spaces 20, nl @ spaces 22 @ ''25'' @ nl @ spaces 20]]"
  unfolding exampleTable_def new_tbody
  unfolding exampleTable_def [symmetric] example_processed example_headings
  by (simp add: markup_defs host_bodyRows example_30 example_25)

lemma markup_processed: "processedRows markupTable = [[JStr ''<tr>'']]"
  unfolding markupTable_def new_processed by code_simp

lemma markup_headings:
  "fst (hideColumns (JArr []) [''Name''] [[JStr ''<tr>'']]) = [''Name'']"
  by code_simp

lemma markup_body: "tbody markupTable = Some [[nl @ spaces 22], []]"
  unfolding markupTable_def new_tbody
  unfolding markupTable_def [symmetric] markup_processed markup_headings
  by (simp add: markup_defs host_bodyRows)

lemma example_sort_asc:
  "js_sort (compareRows exampleHost 1 Asc)
       [[JStr ''Bob'', JNum (Fin 30)], [JStr ''Al'', JNum (Fin 25)]]
     = [[JStr ''Al'', JNum (Fin 25)], [JStr ''Bob'', JNum (Fin 30)]]"
  by code_simp

lemma example_run_one: "run P s [a] = step P s a"
  by (simp add: run_def)

lemma example_first_press:
  "displayedRows (run exampleHost exampleTable [Sort 1])
     = [[JStr ''Al'', JNum (Fin 25)], [JStr ''Bob'', JNum (Fin 30)]]"
proof -
  have "displayedRows (fst (sortByColumn exampleHost 1 exampleTable))
      = js_sort (compareRows exampleHost 1 Asc) (displayedRows exampleTable)"
    using sort_sorted [OF example_apart, of 1 exampleHost] by (simp add: example_unsorted)
  then show ?thesis
    unfolding example_run_one step.simps example_displayed example_sort_asc .
qed

lemma example_sorted_twice:
  "sortState (run exampleHost exampleTable [Sort 1, Sort 1])
     = \<lparr>colIndex = Some 1, direction = Some Desc\<rparr>"
  by (simp add: run_def sort_state_next example_unsorted)

lemma example_third_press:
  "displayedRows (step exampleHost (run exampleHost exampleTable [Sort 1, Sort 1]) (Sort 1))
     = [[JStr ''Bob'', JNum (Fin 30)], [JStr ''Al'', JNum (Fin 25)]]"
proof -
  let ?s = "run exampleHost exampleTable [Sort 1, Sort 1]"
  have apart: "viewsApart ?s"
    by (rule run_apart [OF example_apart])
  have "colIndex (sortState ?s) = Some 1" and "direction (sortState ?s) = Some Desc"
    by (simp_all only: example_sorted_twice sortState.simps)
  from sort_reset [OF apart this, of exampleHost]
  have "displayedRows (step exampleHost ?s (Sort 1)) = processedRows ?s"
    by simp
  also have "\<dots> = processedRows exampleTable"
    using run_processed [OF example_apart] by simp
  finally show ?thesis
    by (simp only: example_processed)
qed

lemma example_visible:
  "visibleRowIndexes [''al'']
     [[nl @ spaces 22 @ ''Bob'' @ nl @ spaces 20, nl @ spaces 22 @ ''30'' @ nl @ spaces 20],
      [nl @ spaces 22 @ ''Al'' @ nl @ spaces 20, nl @ spaces 22 @ ''25'' @ nl @ spaces 20]]
     = [1]"
  by code_simp

lemma example_filtered:
  "filteredRows (run exampleHost exampleTable [Filter [''al'']])
     = [Some [JStr ''Al'', JNum (Fin 25)]]"
  unfolding example_run_one step.simps filter_entries example_body option.case
    example_visible example_displayed
  by (simp add: entryAt_def)

lemma example_filtered_sorted:
  "displayedRows (step exampleHost (run exampleHost exampleTable [Filter [''al'']]) (Sort 1))
     = [[JStr ''Al'', JNum (Fin 25)], [JStr ''Bob'', JNum (Fin 30)]]"
proof -
  let ?s = "filterTable [''al''] exampleTable"
  have apart: "viewsApart ?s"
    by (rule filter_apart [OF example_apart])
  have "displayedRows (fst (sortByColumn exampleHost 1 ?s))
      = js_sort (compareRows exampleHost 1 Asc) (displayedRows ?s)"
    using sort_sorted [OF apart, of 1 exampleHost]
    by (simp add: filter_frame example_unsorted)
  then show ?thesis
    unfolding example_run_one step.simps filter_views [THEN conjunct1] example_displayed
      example_sort_asc .
qed

lemma markup_displayed: "displayedRows markupTable = [[JStr ''<tr>'']]"
  using new_views [of exampleHost True "[''Name'']" "[[JStr ''<tr>'']]" "JArr []"
      "Some (\<lambda>key. None)"]
  by (simp add: markup_processed markupTable_def [symmetric])

lemma markup_visible: "visibleRowIndexes [[]] [[nl @ spaces 22], []] = [0, 1]"
  by code_simp

lemma example_markup_rows:
  "displayedRows (run exampleHost markupTable [Filter [[]]]) = [[JStr ''<tr>'']]"
  "filteredRows (run exampleHost markupTable [Filter [[]]]) = [Some [JStr ''<tr>''], None]"
  unfolding example_run_one step.simps filter_entries filter_views [THEN conjunct1]
    markup_body option.case markup_visible markup_displayed
  by (simp_all add: entryAt_def)

lemma hidden_processed:
  "processedRows
      (newTable exampleHost True [''Name'', ''Age''] exampleRows (JStr ''Name'') (Some exampleRules))
     = [[JStr ''seen''], [JStr ''seen'']]"
  unfolding new_processed by code_simp

lemma hidden_sort:
  "js_sort (compareRows exampleHost 0 Asc) [[JStr ''seen''], [JStr ''seen'']]
     = [[JStr ''seen''], [JStr ''seen'']]"
  by code_simp

lemma example_hidden_sorted:
  "displayedRows (run exampleHost
      (newTable exampleHost True [''Name'', ''Age''] exampleRows (JStr ''Name'') (Some exampleRules))
      [Sort 0])
     = [[JStr ''seen''], [JStr ''seen'']]"
proof -
  let ?new = "newTable exampleHost True [''Name'', ''Age''] exampleRows (JStr ''Name'')
      (Some exampleRules)"
  have apart: "viewsApart ?new"
    by (rule new_apart)
  have "displayedRows (fst (sortByColumn exampleHost 0 ?new))
      = js_sort (compareRows exampleHost 0 Asc) (displayedRows ?new)"
    using sort_sorted [OF apart, of 0 exampleHost] by (simp add: new_sortState)
  then show ?thesis
    unfolding example_run_one step.simps new_views [THEN conjunct2] hidden_processed
      hidden_sort .
qed

text \<open>
  Claim C1. On a table reached from its construction by any sequence of sorts and
  filters, a sort request follows the cycle: from the inactive state to ascending on
  the requested column; from ascending on the requested column to descending; from
  descending on it to the inactive state, and then the displayed rows are a newly
  allocated array holding the processed rows, which are still the rows computed at
  construction, in that order; from any state on another column to ascending on the
  requested one. The sort state is always inactive or active in both fields, so the
  four cases cover every state.
\<close>

theorem sort_cycle:
  assumes "s = run P (newTable P found headings data hc mc) acts"
  shows "(sortState s = \<lparr>colIndex = None, direction = None\<rparr>
            \<longrightarrow> sortState (step P s (Sort c)) = \<lparr>colIndex = Some c, direction = Some Asc\<rparr>)
       \<and> (sortState s = \<lparr>colIndex = Some c, direction = Some Asc\<rparr>
            \<longrightarrow> sortState (step P s (Sort c)) = \<lparr>colIndex = Some c, direction = Some Desc\<rparr>)
       \<and> (sortState s = \<lparr>colIndex = Some c, direction = Some Desc\<rparr>
            \<longrightarrow> sortState (step P s (Sort c)) = \<lparr>colIndex = None, direction = None\<rparr>
              \<and> displayedRows (step P s (Sort c))
                  = processedRows (newTable P found headings data hc mc)
              \<and> processedRows (step P s (Sort c))
                  = processedRows (newTable P found headings data hc mc)
              \<and> nxt s \<le> displayData (step P s (Sort c))
              \<and> displayData (step P s (Sort c)) \<noteq> processedData (step P s (Sort c)))
       \<and> (\<forall>other. colIndex (sortState s) = Some other \<and> other \<noteq> c
            \<longrightarrow> sortState (step P s (Sort c)) = \<lparr>colIndex = Some c, direction = Some Asc\<rparr>)
       \<and> sortStateOk s"
proof -
  let ?new = "newTable P found headings data hc mc"
  let ?s' = "step P s (Sort c)"
  have apart: "viewsApart s"
    unfolding assms by (rule run_apart [OF new_apart])
  have proc: "processedRows s = processedRows ?new"
    unfolding assms using run_processed [OF new_apart] by simp
  have ok: "sortStateOk s"
    unfolding assms
    by (rule run_sortStateOk) (simp add: sortStateOk_def new_sortState)
  have a: "sortState s = \<lparr>colIndex = None, direction = None\<rparr>
      \<longrightarrow> sortState ?s' = \<lparr>colIndex = Some c, direction = Some Asc\<rparr>"
    by (simp add: sort_state_next)
  have b: "sortState s = \<lparr>colIndex = Some c, direction = Some Asc\<rparr>
      \<longrightarrow> sortState ?s' = \<lparr>colIndex = Some c, direction = Some Desc\<rparr>"
    by (simp add: sort_state_next)
  have d: "\<forall>other. colIndex (sortState s) = Some other \<and> other \<noteq> c
      \<longrightarrow> sortState ?s' = \<lparr>colIndex = Some c, direction = Some Asc\<rparr>"
    by (simp add: sort_state_next)
  have r: "sortState s = \<lparr>colIndex = Some c, direction = Some Desc\<rparr>
      \<longrightarrow> sortState ?s' = \<lparr>colIndex = None, direction = None\<rparr>
        \<and> displayedRows ?s' = processedRows ?new
        \<and> processedRows ?s' = processedRows ?new
        \<and> nxt s \<le> displayData ?s'
        \<and> displayData ?s' \<noteq> processedData ?s'"
  proof
    assume st: "sortState s = \<lparr>colIndex = Some c, direction = Some Desc\<rparr>"
    then have c1: "colIndex (sortState s) = Some c" and c2: "direction (sortState s) = Some Desc"
      by simp_all
    from sort_reset [OF apart c1 c2, of P]
    have disp: "displayedRows ?s' = processedRows s" and fresh: "nxt s \<le> displayData ?s'"
      by simp_all
    from sort_apart [OF apart, of P c] have "displayData ?s' \<noteq> processedData ?s'"
      by (simp add: viewsApart_def)
    moreover have "sortState ?s' = \<lparr>colIndex = None, direction = None\<rparr>"
      using st by (simp add: sort_state_next)
    moreover have "processedRows ?s' = processedRows ?new"
      using sort_processed [OF apart, of P c] proc by simp
    ultimately show "sortState ?s' = \<lparr>colIndex = None, direction = None\<rparr>
        \<and> displayedRows ?s' = processedRows ?new
        \<and> processedRows ?s' = processedRows ?new
        \<and> nxt s \<le> displayData ?s'
        \<and> displayData ?s' \<noteq> processedData ?s'"
      using disp fresh proc by simp
  qed
  from a b r d ok show ?thesis by blast
qed

theorem sort_cycle_witness:
  "sortState (run exampleHost exampleTable [Sort 1, Sort 1])
     = \<lparr>colIndex = Some 1, direction = Some Desc\<rparr>
   \<and> sortState (step exampleHost (run exampleHost exampleTable [Sort 1, Sort 1]) (Sort 1))
     = \<lparr>colIndex = None, direction = None\<rparr>
   \<and> displayedRows (run exampleHost exampleTable [Sort 1])
     = [[JStr ''Al'', JNum (Fin 25)], [JStr ''Bob'', JNum (Fin 30)]]
   \<and> displayedRows (step exampleHost (run exampleHost exampleTable [Sort 1, Sort 1]) (Sort 1))
     = [[JStr ''Bob'', JNum (Fin 30)], [JStr ''Al'', JNum (Fin 25)]]
   \<and> processedRows exampleTable = [[JStr ''Bob'', JNum (Fin 30)], [JStr ''Al'', JNum (Fin 25)]]"
proof -
  have reach: "run exampleHost exampleTable [Sort 1, Sort 1]
      = run exampleHost
          (newTable exampleHost True [''Name'', ''Age''] exampleRows (JArr []) (Some (\<lambda>key. None)))
          [Sort 1, Sort 1]"
    by (simp add: exampleTable_def)
  from sort_cycle [OF reach, of 1] example_sorted_twice
  have "sortState (step exampleHost (run exampleHost exampleTable [Sort 1, Sort 1]) (Sort 1))
        = \<lparr>colIndex = None, direction = None\<rparr>
      \<and> displayedRows (step exampleHost (run exampleHost exampleTable [Sort 1, Sort 1]) (Sort 1))
        = processedRows exampleTable"
    by (simp add: exampleTable_def)
  with example_sorted_twice example_third_press example_first_press show ?thesis
    by simp
qed

text \<open>
  Claim C5. After every sort, whether it sets a direction or resets, the filtered rows
  are the displayed rows, none of them \<open>undefined\<close>, in a newly allocated array of
  their own: the sort takes no account of the filter inputs.
\<close>

theorem sort_resets_filtered:
  assumes "s = run P (newTable P found headings data hc mc) acts"
  shows "filteredRows (step P s (Sort c)) = map Some (displayedRows (step P s (Sort c)))
       \<and> nxt s \<le> filteredData (step P s (Sort c))
       \<and> filteredData (step P s (Sort c)) \<noteq> displayData (step P s (Sort c))"
proof -
  have "viewsApart s"
    unfolding assms by (rule run_apart [OF new_apart])
  from sort_fresh [OF this, of P c] show ?thesis
    by (simp add: sort_filtered_copy)
qed

theorem sort_resets_filtered_witness:
  "filteredRows (run exampleHost exampleTable [Filter [''al'']])
     = [Some [JStr ''Al'', JNum (Fin 25)]]
   \<and> filteredRows (step exampleHost (run exampleHost exampleTable [Filter [''al'']]) (Sort 1))
     = [Some [JStr ''Al'', JNum (Fin 25)], Some [JStr ''Bob'', JNum (Fin 30)]]"
proof -
  have reach: "run exampleHost exampleTable [Filter [''al'']]
      = run exampleHost
          (newTable exampleHost True [''Name'', ''Age''] exampleRows (JArr []) (Some (\<lambda>key. None)))
          [Filter [''al'']]"
    by (simp add: exampleTable_def)
  from sort_resets_filtered [OF reach, of 1] example_filtered example_filtered_sorted
  show ?thesis by simp
qed

text \<open>
  Claim C6 does not hold of the code. The displayed rows are a permutation of the
  processed rows throughout (lemma \<open>run_permutation\<close>), and a filter leaves a
  subsequence of them as long as the table body has one row element per displayed row
  (lemma \<open>filter_subseq_in_step\<close>). But \<open>filterTable\<close> takes the positions of
  the row elements it finds in the document, and the text of a cell is written into the
  markup unescaped: for the one row whose cell is the text \<open><tr>\<close> the body has two
  row elements, and a filter with a blank input stores the row followed by
  \<open>undefined\<close>, which is not a subsequence of the displayed rows.
\<close>

theorem filterTable_markup_rows:
  "tbody markupTable = Some [[nl @ spaces 22], []]
   \<and> displayedRows (run exampleHost markupTable [Filter [[]]]) = [[JStr ''<tr>'']]
   \<and> filteredRows (run exampleHost markupTable [Filter [[]]]) = [Some [JStr ''<tr>''], None]
   \<and> \<not> subseq (filteredRows (run exampleHost markupTable [Filter [[]]]))
         (map Some (displayedRows (run exampleHost markupTable [Filter [[]]])))"
proof -
  have "\<not> subseq [Some [JStr ''<tr>''], None] (map Some [[JStr ''<tr>'']])"
    by (auto dest: list_emb_length)
  with example_markup_rows markup_body show ?thesis by simp
qed

text \<open>
  Claim C10. The rules are pure functions. Through the construction and every sort
  and filter after it, the configuration is the one passed in, its array of rows is
  the caller's array (address 0) with the rows it had, and \<open>getData\<close> returns that
  array: the raw rows, not the projected, modified or sorted ones.
\<close>

theorem raw_data_unchanged:
  assumes "s = run P (newTable P found headings data hc mc) acts"
  shows "config s = \<lparr>cfg_headings = headings, cfg_data = 0, cfg_hideColumns = hc,
                      cfg_modifyConfig = mc\<rparr>
       \<and> getData s = 0
       \<and> heap s (getData s) = data
       \<and> heap (newTable P found headings data hc mc) 0 = data"
proof -
  let ?new = "newTable P found headings data hc mc"
  have cfg: "config s = config ?new"
    unfolding assms by (rule run_config)
  have "heap s (cfg_data (config ?new)) = heap ?new (cfg_data (config ?new))"
    unfolding assms by (rule run_raw [OF new_apart])
  then show ?thesis
    by (simp add: cfg getData_def new_config new_raw)
qed

theorem raw_data_unchanged_witness:
  "heap (run exampleHost
      (newTable exampleHost True [''Name'', ''Age''] exampleRows (JStr ''Name'') (Some exampleRules))
      [Sort 0])
     (getData (run exampleHost
      (newTable exampleHost True [''Name'', ''Age''] exampleRows (JStr ''Name'') (Some exampleRules))
      [Sort 0]))
     = exampleRows
   \<and> displayedRows (run exampleHost
      (newTable exampleHost True [''Name'', ''Age''] exampleRows (JStr ''Name'') (Some exampleRules))
      [Sort 0])
     = [[JStr ''seen''], [JStr ''seen'']]"
  using raw_data_unchanged [OF refl, of exampleHost True "[''Name'', ''Age'']" exampleRows
      "JStr ''Name''" "Some exampleRules" "[Sort 0]"] example_hidden_sorted
  by blast

section \<open>Properties of the export\<close>

lemma foldl_append_lines:
  "foldl (\<lambda>csv row. csv @ line row) start rows = start @ concat (map line rows)"
  by (induction rows arbitrary: start) simp_all

lemma csvContent_layout:
  "csvContent P headers data includeHeaders =
     (if includeHeaders
      then js_join '','' (map (\<lambda>header. [CHR 0x22] @ header @ [CHR 0x22]) headers) @ nl
      else [])
     @ concat (map (\<lambda>row. js_join '','' (map (csvField P) row) @ nl) data)"
  unfolding csvContent_def by (rule foldl_append_lines)

lemma doubleQuotes_append: "doubleQuotes (a @ b) = doubleQuotes a @ doubleQuotes b"
  by (simp add: doubleQuotes_def)

lemma doubleQuotes_plain: "CHR 0x22 \<notin> set t \<Longrightarrow> doubleQuotes t = t"
  by (induction t) (auto simp: doubleQuotes_def)

text \<open>
  Claim C9. The CSV text is the header line when headers are included, each heading
  wrapped in double quotes and the headings joined by commas, followed by one line per
  filtered row: each cell's export text with every double quote doubled, wrapped in
  double quotes, the fields joined by commas, and a single newline after each line.
  When an entry of the filtered array is \<open>undefined\<close>, mapping over it throws a
  TypeError and nothing is written. The
  rows \<open>[["Al", 26]]\<close> under the headings \<open>["Name", "Age"]\<close> give the text of
  scenario E.
\<close>

theorem downloadAsCSV_text:
  "(filteredRows s = map Some rows \<longrightarrow>
      downloadAsCSV P s includeHeaders =
        Inr ((if includeHeaders
              then js_join '','' (map (\<lambda>header. [CHR 0x22] @ header @ [CHR 0x22])
                     (processedHeadings s)) @ nl
              else [])
             @ concat (map (\<lambda>row.
                  js_join '',''
                    (map (\<lambda>cell. [CHR 0x22] @ doubleQuotes (exportText P cell) @ [CHR 0x22]) row)
                  @ nl) rows)))
   \<and> csvContent P headers data includeHeaders =
       (if includeHeaders
        then js_join '','' (map (\<lambda>header. [CHR 0x22] @ header @ [CHR 0x22]) headers) @ nl
        else [])
       @ concat (map (\<lambda>row.
            js_join '',''
              (map (\<lambda>cell. [CHR 0x22] @ doubleQuotes (exportText P cell) @ [CHR 0x22]) row)
            @ nl) data)
   \<and> doubleQuotes (a @ [CHR 0x22] @ b) = doubleQuotes a @ [CHR 0x22, CHR 0x22] @ doubleQuotes b
   \<and> (CHR 0x22 \<notin> set t \<longrightarrow> doubleQuotes t = t)
   \<and> csvContent P [''Name'', ''Age''] [[JStr ''Al'', JNum (Fin 26)]] True
        = ''\"Name\",\"Age\"'' @ nl @ ''\"Al\",\"26\"'' @ nl
   \<and> (None \<in> set (filteredRows s) \<longrightarrow>
        downloadAsCSV P s includeHeaders
          = Inl (TypeError ''Cannot read properties of undefined''))"
proof -
  have fields: "csvField P = (\<lambda>cell. [CHR 0x22] @ doubleQuotes (exportText P cell) @ [CHR 0x22])"
    by (rule ext) (simp add: csvField_def exportText_def)
  have layout: "\<And>hs rs. csvContent P hs rs includeHeaders =
       (if includeHeaders
        then js_join '','' (map (\<lambda>header. [CHR 0x22] @ header @ [CHR 0x22]) hs) @ nl
        else [])
       @ concat (map (\<lambda>row.
            js_join '',''
              (map (\<lambda>cell. [CHR 0x22] @ doubleQuotes (exportText P cell) @ [CHR 0x22]) row)
            @ nl) rs)"
    unfolding csvContent_layout fields by (rule refl)
  have state: "filteredRows s = map Some rows \<longrightarrow>
      downloadAsCSV P s includeHeaders
        = Inr (csvContent P (processedHeadings s) rows includeHeaders)"
    by (simp add: downloadAsCSV_def definedRows_Some)
  have quote: "doubleQuotes (a @ [CHR 0x22] @ b)
      = doubleQuotes a @ [CHR 0x22, CHR 0x22] @ doubleQuotes b"
    by (simp add: doubleQuotes_def)
  have al: "csvField P (JStr ''Al'') = ''\"Al\"''"
    by (simp add: csvField_def getCellTextContent_def doubleQuotes_def)
  have age: "csvField P (JNum (Fin 26)) = ''\"26\"''"
    by (simp add: csvField_def getCellTextContent_def doubleQuotes_def positiveToString_26)
  have scenario: "csvContent P [''Name'', ''Age''] [[JStr ''Al'', JNum (Fin 26)]] True
        = ''\"Name\",\"Age\"'' @ nl @ ''\"Al\",\"26\"'' @ nl"
    by (simp add: csvContent_layout al age)
  have undef: "None \<in> set (filteredRows s) \<longrightarrow>
      downloadAsCSV P s includeHeaders = Inl (TypeError ''Cannot read properties of undefined'')"
    by (simp add: downloadAsCSV_def definedRows_None)
  from state layout [of "processedHeadings s" rows] layout [of headers data] quote scenario
    doubleQuotes_plain [of t] undef
  show ?thesis by simp
qed

lemma example_csv_headings:
  "processedHeadings (run exampleHost exampleTable [Filter [''al'']]) = [''Name'', ''Age'']"
  by (simp add: example_run_one filter_frame exampleTable_def new_headings example_headings)

theorem downloadAsCSV_text_witness:
  "CHR 0x22 \<notin> set ''Al''
   \<and> doubleQuotes ''Al'' = ''Al''
   \<and> filteredRows (run exampleHost exampleTable [Filter [''al'']])
        = map Some [[JStr ''Al'', JNum (Fin 25)]]
   \<and> downloadAsCSV exampleHost (run exampleHost exampleTable [Filter [''al'']]) True
        = Inr (''\"Name\",\"Age\"'' @ nl @ ''\"Al\",\"25\"'' @ nl)
   \<and> None \<in> set (filteredRows (run exampleHost markupTable [Filter [[]]]))
   \<and> downloadAsCSV exampleHost (run exampleHost markupTable [Filter [[]]]) True
        = Inl (TypeError ''Cannot read properties of undefined'')"
proof -
  let ?s = "run exampleHost exampleTable [Filter [''al'']]"
  let ?m = "run exampleHost markupTable [Filter [[]]]"
  have plain: "CHR 0x22 \<notin> set ''Al''"
    by simp
  have rows: "filteredRows ?s = map Some [[JStr ''Al'', JNum (Fin 25)]]"
    using example_filtered by simp
  have undef: "None \<in> set (filteredRows ?m)"
    by (simp add: example_markup_rows)
  from downloadAsCSV_text [of ?s "[[JStr ''Al'', JNum (Fin 25)]]" exampleHost True
      "[]" "[]" "[]" "[]" "''Al''"] plain rows
  have a: "doubleQuotes ''Al'' = ''Al''"
    and b: "downloadAsCSV exampleHost ?s True
        = Inr ((if True
              then js_join '','' (map (\<lambda>header. [CHR 0x22] @ header @ [CHR 0x22])
                     (processedHeadings ?s)) @ nl
              else [])
             @ concat (map (\<lambda>row.
                  js_join '',''
                    (map (\<lambda>cell. [CHR 0x22] @ doubleQuotes (exportText exampleHost cell)
                       @ [CHR 0x22]) row)
                  @ nl) [[JStr ''Al'', JNum (Fin 25)]]))"
    by blast+
  from downloadAsCSV_text [of ?m "[]" exampleHost True "[]" "[]" "[]" "[]" "[]"] undef
  have c: "downloadAsCSV exampleHost ?m True
        = Inl (TypeError ''Cannot read properties of undefined'')"
    by blast
  have d: "downloadAsCSV exampleHost ?s True
        = Inr (''\"Name\",\"Age\"'' @ nl @ ''\"Al\",\"25\"'' @ nl)"
    unfolding b example_csv_headings
    by (simp add: exportText_def getCellTextContent_def doubleQuotes_def example_25)
  from plain a rows d undef c show ?thesis
    by blast
qed


end
